theory Spec2Isabelle
  imports Main "HOL-Library.Word" "HOL-Library.Char_ord" "HOL-Library.List_Lexorder"
begin

section \<open>tracefs: uprobe rule encoding\<close>

text \<open>
  Go strings and byte slices are byte sequences: \<open>string\<close> (a \<open>char list\<close>).
  \<open>uint64\<close> is \<open>64 word\<close>. Values of pointer and interface type are taken
  to be non-nil throughout.
\<close>

subsection \<open>Data model\<close>

text \<open>
  \<^verbatim>\<open>type FetchArg interface { Type() string; String() string }\<close>
  An implementation is represented by what its two methods return.
\<close>

record FetchArg =
  Type :: string
  String :: string

record fetchRegister =
  register :: string

definition fetchRegister_String :: "fetchRegister \<Rightarrow> string" where
  "fetchRegister_String f = register f"

record UprobeEvent =
  ReturnProbe :: bool
  Group :: string
  Event :: string
  Path :: string
  Offset :: "64 word"
  FetchArgs :: "FetchArg list"

subsection \<open>The verb \<open>%016x\<close> of package fmt on a \<open>uint64\<close>\<close>

definition ldigits :: string where
  "ldigits = ''0123456789abcdefx''"

text \<open>
  \<open>fmtInteger\<close> writes the digits from the least significant one:
  \<^verbatim>\<open>for u >= 16 { i--; buf[i] = digits[u&0xF]; u >>= 4 }; i--; buf[i] = digits[u]\<close>
  and then, with the zero flag and width 16, pads with \<open>'0'\<close> while fewer than 16
  digits are written. No sign and no prefix for an unsigned value without \<open>#\<close>.
\<close>

function fmtInteger_digits :: "nat \<Rightarrow> string" where
  "fmtInteger_digits u =
     (if 16 \<le> u then fmtInteger_digits (u div 16) @ [ldigits ! (u mod 16)]
      else [ldigits ! u])"
  by pat_completeness auto
termination
  by (relation "measure (\<lambda>u. u)") auto

declare fmtInteger_digits.simps [simp del]

definition fmt_016x :: "64 word \<Rightarrow> string" where
  "fmt_016x w =
     (let ds = fmtInteger_digits (unat w)
      in replicate (16 - length ds) (CHR ''0'') @ ds)"

subsection \<open>\<open>UprobeEvent.Rule\<close>\<close>

definition Rule :: "UprobeEvent \<Rightarrow> string" where
  "Rule e =
     (let typ = (if ReturnProbe e then ''r'' else ''p'');
          builder = typ;
          builder = (if Group e \<noteq> [] \<and> Event e \<noteq> []
                     then builder @ '':'' @ Group e @ ''/'' @ Event e
                     else if Event e \<noteq> []
                     then builder @ '':'' @ Event e
                     else builder);
          builder = builder @ '' '' @ Path e @ '':0x'' @ fmt_016x (Offset e);
          builder = foldl (\<lambda>b arg. b @ '' '' @ String arg) builder (FetchArgs e)
      in builder)"

subsection \<open>The rule grammar, as the specification words it\<close>

text \<open>
  \<^verbatim>\<open><type> [':' [<group> '/'] <event>] ' ' <path> ':0x' <offset> [' ' <fetch-arg>]*\<close>
  The following definitions follow the specification, not the code: the type character,
  the naming clause, and the value of a string of lowercase hexadecimal digits.
\<close>

definition spec_type :: "UprobeEvent \<Rightarrow> char" where
  "spec_type e = (if ReturnProbe e then CHR ''r'' else CHR ''p'')"

definition spec_naming :: "UprobeEvent \<Rightarrow> string" where
  "spec_naming e =
     (if Event e = [] then []
      else if Group e = [] then '':'' @ Event e
      else '':'' @ Group e @ ''/'' @ Event e)"

definition is_lower_hex :: "char \<Rightarrow> bool" where
  "is_lower_hex c = (c \<in> set ''0123456789abcdef'')"

definition hex_digit_val :: "char \<Rightarrow> nat" where
  "hex_digit_val c =
     (if of_char c < (58::nat) then of_char c - 48 else of_char c - 87)"

definition hex_val :: "string \<Rightarrow> nat" where
  "hex_val s = foldl (\<lambda>a c. 16 * a + hex_digit_val c) 0 s"

text \<open>
  A reader of rule lines that follows the grammar: the type character; the naming
  clause, present exactly when a colon follows and running up to the first space; then,
  after that space, the token up to the next space, whose last 19 bytes are \<open>:0x\<close> and
  16 lowercase hexadecimal digits and whose front is the path. It returns the four
  parts, or \<open>None\<close> when the line does not have this shape.
\<close>

definition parse_rule :: "string \<Rightarrow> (char \<times> string \<times> string \<times> string) option" where
  "parse_rule line =
     (case line of
        [] \<Rightarrow> None
      | t # rest \<Rightarrow>
          if t \<noteq> CHR ''p'' \<and> t \<noteq> CHR ''r'' then None
          else
            let naming = (if rest \<noteq> [] \<and> hd rest = CHR '':''
                          then takeWhile (\<lambda>c. c \<noteq> CHR '' '') rest else []);
                rest1 = drop (length naming) rest
            in (case rest1 of
                  [] \<Rightarrow> None
                | s # rest2 \<Rightarrow>
                    if s \<noteq> CHR '' '' then None
                    else
                      let tok = takeWhile (\<lambda>c. c \<noteq> CHR '' '') rest2;
                          n = length tok - 19;
                          p = take n tok;
                          suffix = drop n tok;
                          digits = drop 3 suffix
                      in if length tok \<ge> 19 \<and> take 3 suffix = '':0x''
                            \<and> list_all is_lower_hex digits
                         then Some (t, naming, p, digits) else None))"

text \<open>
  A valid combination: group, event and path are single tokens of the line-oriented
  grammar, that is, none of them contains a space.
\<close>

definition valid_event :: "UprobeEvent \<Rightarrow> bool" where
  "valid_event e =
     (CHR '' '' \<notin> set (Group e) \<and> CHR '' '' \<notin> set (Event e) \<and> CHR '' '' \<notin> set (Path e))"

section \<open>Standard library functions the package calls\<close>

subsection \<open>\<open>filepath.Join\<close> and \<open>filepath.Clean\<close> (Unix)\<close>

text \<open>
  \<open>Join\<close> skips leading empty elements, joins what is left with the separator and
  cleans the result:
  \<^verbatim>\<open>for i, e := range elem { if e != "" { return Clean(strings.Join(elem[i:], "/")) } }; return ""\<close>
  \<open>Clean\<close> is the byte loop of the library. The output buffer is the list \<open>out\<close>,
  its write index \<open>out.w\<close> is \<open>length out\<close>; there is no volume name on Unix.
\<close>

fun strings_Join :: "string list \<Rightarrow> string \<Rightarrow> string" where
  "strings_Join [] sep = []"
| "strings_Join [x] sep = x"
| "strings_Join (x # y # ys) sep = x @ sep @ strings_Join (y # ys) sep"

definition IsPathSeparator :: "char \<Rightarrow> bool" where
  "IsPathSeparator c = (c = CHR ''/'')"

text \<open>\<^verbatim>\<open>r+1 == n || os.IsPathSeparator(path[r+1])\<close>, on the rest of the path after \<open>path[r]\<close>.\<close>

definition elem_ends :: "string \<Rightarrow> bool" where
  "elem_ends cs = (case cs of [] \<Rightarrow> True | d # _ \<Rightarrow> IsPathSeparator d)"

text \<open>
  \<^verbatim>\<open>for out.w > dotdot && !os.IsPathSeparator(out.index(out.w)) { out.w-- }\<close>
\<close>

function backtrack :: "string \<Rightarrow> nat \<Rightarrow> nat \<Rightarrow> nat" where
  "backtrack buf dotdot w =
     (if dotdot < w \<and> \<not> IsPathSeparator (buf ! w) then backtrack buf dotdot (w - 1) else w)"
  by pat_completeness auto
termination
  by (relation "measure (\<lambda>(buf, dotdot, w). w)") auto

declare backtrack.simps [simp del]

function Clean_loop :: "bool \<Rightarrow> string \<Rightarrow> string \<Rightarrow> nat \<Rightarrow> string" where
  "Clean_loop rooted [] out dotdot = out"
| "Clean_loop rooted (c # cs) out dotdot =
     (if IsPathSeparator c then Clean_loop rooted cs out dotdot
      else if c = CHR ''.'' \<and> elem_ends cs then Clean_loop rooted cs out dotdot
      else if c = CHR ''.'' \<and> (case cs of [] \<Rightarrow> False | d # ds \<Rightarrow> d = CHR ''.'' \<and> elem_ends ds) then
        (if dotdot < length out
         then Clean_loop rooted (tl cs) (take (backtrack out dotdot (length out - 1)) out) dotdot
         else if \<not> rooted
         then Clean_loop rooted (tl cs) ((if 0 < length out then out @ ''/'' else out) @ ''..'')
                (length ((if 0 < length out then out @ ''/'' else out) @ ''..''))
         else Clean_loop rooted (tl cs) out dotdot)
      else
        Clean_loop rooted (dropWhile (\<lambda>x. \<not> IsPathSeparator x) (c # cs))
          ((if rooted \<and> length out \<noteq> 1 \<or> \<not> rooted \<and> length out \<noteq> 0 then out @ ''/'' else out)
             @ takeWhile (\<lambda>x. \<not> IsPathSeparator x) (c # cs))
          dotdot)"
  by pat_completeness auto
termination
  by (relation "measure (\<lambda>(rooted, p, out, dotdot). length p)")
     (auto simp: le_imp_less_Suc length_dropWhile_le)

declare Clean_loop.simps [simp del]

definition Clean :: "string \<Rightarrow> string" where
  "Clean p =
     (case p of
        [] \<Rightarrow> ''.''
      | c # cs \<Rightarrow>
          let rooted = IsPathSeparator c;
              out = (if rooted then Clean_loop True cs ''/'' 1 else Clean_loop False p [] 0)
          in if out = [] then ''.'' else out)"

fun Join :: "string list \<Rightarrow> string" where
  "Join [] = []"
| "Join (e # es) = (if e \<noteq> [] then Clean (strings_Join (e # es) ''/'') else Join es)"

subsection \<open>\<open>bytes.TrimSpace\<close>\<close>

text \<open>
  The fast path trims ASCII white space at both ends; on meeting a byte \<open>\<ge> 0x80\<close> it
  falls back on \<open>TrimFunc(s[start:stop], unicode.IsSpace)\<close>. \<open>scan_ascii\<close> is either
  loop (the second one runs on the reversed slice): \<open>Inl\<close> when a non-ASCII byte
  stopped it, \<open>Inr\<close> otherwise, with what is left of the slice.
\<close>

definition asciiSpace :: "char \<Rightarrow> bool" where
  "asciiSpace c = (c \<in> {CHR 0x09, CHR 0x0A, CHR 0x0B, CHR 0x0C, CHR 0x0D, CHR 0x20})"

definition RuneSelf :: nat where
  "RuneSelf = 0x80"

fun scan_ascii :: "string \<Rightarrow> string + string" where
  "scan_ascii [] = Inr []"
| "scan_ascii (c # cs) =
     (if RuneSelf \<le> of_char c then Inl (c # cs)
      else if asciiSpace c then scan_ascii cs
      else Inr (c # cs))"

text \<open>
  The fallback decodes UTF-8 runes from the front (\<open>DecodeRune\<close>) and from the back
  (\<open>DecodeLastRune\<close>) and drops those for which \<open>unicode.IsSpace\<close> holds. A rune is
  such a space exactly when its bytes are one of the encodings below (the code points
  with the White_Space property); an invalid byte decodes as \<open>RuneError\<close>, which is not
  a space.
\<close>

definition space_runes :: "string list" where
  "space_runes =
     [[CHR 0x09], [CHR 0x0A], [CHR 0x0B], [CHR 0x0C], [CHR 0x0D], [CHR 0x20],
      [CHR 0xC2, CHR 0x85], [CHR 0xC2, CHR 0xA0],
      [CHR 0xE1, CHR 0x9A, CHR 0x80],
      [CHR 0xE2, CHR 0x80, CHR 0x80], [CHR 0xE2, CHR 0x80, CHR 0x81],
      [CHR 0xE2, CHR 0x80, CHR 0x82], [CHR 0xE2, CHR 0x80, CHR 0x83],
      [CHR 0xE2, CHR 0x80, CHR 0x84], [CHR 0xE2, CHR 0x80, CHR 0x85],
      [CHR 0xE2, CHR 0x80, CHR 0x86], [CHR 0xE2, CHR 0x80, CHR 0x87],
      [CHR 0xE2, CHR 0x80, CHR 0x88], [CHR 0xE2, CHR 0x80, CHR 0x89],
      [CHR 0xE2, CHR 0x80, CHR 0x8A],
      [CHR 0xE2, CHR 0x80, CHR 0xA8], [CHR 0xE2, CHR 0x80, CHR 0xA9],
      [CHR 0xE2, CHR 0x80, CHR 0xAF],
      [CHR 0xE2, CHR 0x81, CHR 0x9F],
      [CHR 0xE3, CHR 0x80, CHR 0x80]]"

text \<open>The width of the space rune at the front of the slice, if there is one.\<close>

definition leading_space :: "string \<Rightarrow> nat option" where
  "leading_space s =
     (if 1 \<le> length s \<and> take 1 s \<in> set space_runes then Some 1
      else if 2 \<le> length s \<and> take 2 s \<in> set space_runes then Some 2
      else if 3 \<le> length s \<and> take 3 s \<in> set space_runes then Some 3
      else None)"

definition trailing_space :: "string \<Rightarrow> nat option" where
  "trailing_space s =
     (if 1 \<le> length s \<and> drop (length s - 1) s \<in> set space_runes then Some 1
      else if 2 \<le> length s \<and> drop (length s - 2) s \<in> set space_runes then Some 2
      else if 3 \<le> length s \<and> drop (length s - 3) s \<in> set space_runes then Some 3
      else None)"

function TrimLeftFunc_IsSpace :: "string \<Rightarrow> string" where
  "TrimLeftFunc_IsSpace s =
     (case leading_space s of None \<Rightarrow> s | Some k \<Rightarrow> TrimLeftFunc_IsSpace (drop k s))"
  by pat_completeness auto
termination
  by (relation "measure length") (auto simp: leading_space_def split: if_splits)

function TrimRightFunc_IsSpace :: "string \<Rightarrow> string" where
  "TrimRightFunc_IsSpace s =
     (case trailing_space s of None \<Rightarrow> s
      | Some k \<Rightarrow> TrimRightFunc_IsSpace (take (length s - k) s))"
  by pat_completeness auto
termination
  by (relation "measure length") (auto simp: trailing_space_def split: if_splits)

declare TrimLeftFunc_IsSpace.simps [simp del] TrimRightFunc_IsSpace.simps [simp del]

definition TrimFunc_IsSpace :: "string \<Rightarrow> string" where
  "TrimFunc_IsSpace s = TrimRightFunc_IsSpace (TrimLeftFunc_IsSpace s)"

definition TrimSpace :: "string \<Rightarrow> string" where
  "TrimSpace s =
     (case scan_ascii s of
        Inl rest \<Rightarrow> TrimFunc_IsSpace rest
      | Inr rest \<Rightarrow>
          (case scan_ascii (rev rest) of
             Inl r \<Rightarrow> TrimFunc_IsSpace (rev r)
           | Inr r \<Rightarrow> rev r))"

section \<open>The file system the package talks to\<close>

text \<open>
  The operating system is an external collaborator. It is modelled as a state: the
  nodes of the file system, keyed by path; a fault table that can make any call fail
  with any error number (permissions, a busy instance, a rule the kernel rejects); and
  the log of the calls made so far, in order. Paths are looked up as they are given: no
  working directory, no links. The permission bits recorded at a node are the ones
  asked for when it was created.
\<close>

datatype errno = ENOENT | EEXIST | EISDIR | ENOTDIR | ENOTEMPTY | EBADF | EACCES | EPERM | EBUSY | EINVAL | EIO

text \<open>
  A Go \<open>error\<close> value: one built by \<open>fmt.Errorf\<close> (its message), or the
  \<open>*PathError\<close> of package os (operation, path, error number).
\<close>

datatype error = Errorf string | PathError string string errno

datatype flag = O_APPEND | O_CREATE | O_WRONLY

datatype node = File nat string | Dir nat

text \<open>An open file: its name and the flags it was opened with.\<close>

record osFile =
  fname :: string
  fflags :: "flag set"

datatype call =
    ReadFile_call string
  | WriteFile_call string string nat
  | ReadDir_call string
  | Mkdir_call string nat
  | Remove_call string
  | OpenFile_call string "flag set" nat
  | Write_call string string
  | Close_call string

record world =
  nodes :: "(string \<times> node) list"
  fault :: "call \<Rightarrow> errno option"
  calls :: "call list"

definition lookup :: "world \<Rightarrow> string \<Rightarrow> node option" where
  "lookup w p = map_of (nodes w) p"

definition store :: "string \<Rightarrow> node \<Rightarrow> world \<Rightarrow> world" where
  "store p n w = w\<lparr>nodes := (p, n) # filter (\<lambda>kv. fst kv \<noteq> p) (nodes w)\<rparr>"

definition unlink :: "string \<Rightarrow> world \<Rightarrow> world" where
  "unlink p w = w\<lparr>nodes := filter (\<lambda>kv. fst kv \<noteq> p) (nodes w)\<rparr>"

definition logged :: "call \<Rightarrow> world \<Rightarrow> world" where
  "logged c w = w\<lparr>calls := calls w @ [c]\<rparr>"

text \<open>The directory part and the last element of a path.\<close>

definition parent_of :: "string \<Rightarrow> string" where
  "parent_of p =
     (if CHR ''/'' \<notin> set p then ''.''
      else let d = rev (tl (dropWhile (\<lambda>c. c \<noteq> CHR ''/'') (rev p)))
           in if d = [] then ''/'' else d)"

definition base_of :: "string \<Rightarrow> string" where
  "base_of p = rev (takeWhile (\<lambda>c. c \<noteq> CHR ''/'') (rev p))"

text \<open>A directory entry name: not empty, no separator, neither \<open>.\<close> nor \<open>..\<close>.\<close>

definition entry_name :: "string \<Rightarrow> bool" where
  "entry_name n = (n \<noteq> [] \<and> CHR ''/'' \<notin> set n \<and> n \<noteq> ''.'' \<and> n \<noteq> ''..'')"

definition is_dir :: "world \<Rightarrow> string \<Rightarrow> bool" where
  "is_dir w p = (case lookup w p of Some (Dir m) \<Rightarrow> True | _ \<Rightarrow> False)"

definition entries_of :: "world \<Rightarrow> string \<Rightarrow> string list" where
  "entries_of w p =
     map base_of (filter (\<lambda>q. q \<noteq> p \<and> parent_of q = p \<and> entry_name (base_of q))
                         (map fst (nodes w)))"

text \<open>\<open>ioutil.ReadFile\<close> (that is \<open>os.ReadFile\<close>): the whole content of a file.\<close>

definition ioutil_ReadFile :: "string \<Rightarrow> world \<Rightarrow> (error + string) \<times> world" where
  "ioutil_ReadFile p w =
     (let c = ReadFile_call p; w1 = logged c w
      in case fault w c of
           Some e \<Rightarrow> (Inl (PathError ''open'' p e), w1)
         | None \<Rightarrow>
             (case lookup w p of
                None \<Rightarrow> (Inl (PathError ''open'' p ENOENT), w1)
              | Some (Dir m) \<Rightarrow> (Inl (PathError ''read'' p EISDIR), w1)
              | Some (File m content) \<Rightarrow> (Inr content, w1)))"

text \<open>\<open>ioutil.WriteFile\<close> (that is \<open>os.WriteFile\<close>): creates the file with the given
  permission or truncates it.\<close>

definition ioutil_WriteFile :: "string \<Rightarrow> string \<Rightarrow> nat \<Rightarrow> world \<Rightarrow> error option \<times> world" where
  "ioutil_WriteFile p b perm w =
     (let c = WriteFile_call p b perm; w1 = logged c w
      in case fault w c of
           Some e \<Rightarrow> (Some (PathError ''open'' p e), w1)
         | None \<Rightarrow>
             (case lookup w p of
                Some (Dir m) \<Rightarrow> (Some (PathError ''open'' p EISDIR), w1)
              | Some (File m content) \<Rightarrow> (None, store p (File m b) w1)
              | None \<Rightarrow>
                  if is_dir w (parent_of p) then (None, store p (File perm b) w1)
                  else (Some (PathError ''open'' p ENOENT), w1)))"

text \<open>\<open>os.ReadDir\<close>: the entries of a directory, sorted by file name.\<close>

definition os_ReadDir :: "string \<Rightarrow> world \<Rightarrow> (error + string list) \<times> world" where
  "os_ReadDir p w =
     (let c = ReadDir_call p; w1 = logged c w
      in case fault w c of
           Some e \<Rightarrow> (Inl (PathError ''open'' p e), w1)
         | None \<Rightarrow>
             (case lookup w p of
                None \<Rightarrow> (Inl (PathError ''open'' p ENOENT), w1)
              | Some (File m content) \<Rightarrow> (Inl (PathError ''readdirent'' p ENOTDIR), w1)
              | Some (Dir m) \<Rightarrow> (Inr (sort (entries_of w p)), w1)))"

definition os_Mkdir :: "string \<Rightarrow> nat \<Rightarrow> world \<Rightarrow> error option \<times> world" where
  "os_Mkdir p perm w =
     (let c = Mkdir_call p perm; w1 = logged c w
      in case fault w c of
           Some e \<Rightarrow> (Some (PathError ''mkdir'' p e), w1)
         | None \<Rightarrow>
             if lookup w p \<noteq> None then (Some (PathError ''mkdir'' p EEXIST), w1)
             else if \<not> is_dir w (parent_of p) then (Some (PathError ''mkdir'' p ENOENT), w1)
             else (None, store p (Dir perm) w1))"

text \<open>\<open>os.Remove\<close>: removes a file or an empty directory.\<close>

definition os_Remove :: "string \<Rightarrow> world \<Rightarrow> error option \<times> world" where
  "os_Remove p w =
     (let c = Remove_call p; w1 = logged c w
      in case fault w c of
           Some e \<Rightarrow> (Some (PathError ''remove'' p e), w1)
         | None \<Rightarrow>
             (case lookup w p of
                None \<Rightarrow> (Some (PathError ''remove'' p ENOENT), w1)
              | Some (File m content) \<Rightarrow> (None, unlink p w1)
              | Some (Dir m) \<Rightarrow>
                  if entries_of w p \<noteq> [] then (Some (PathError ''remove'' p ENOTEMPTY), w1)
                  else (None, unlink p w1)))"

text \<open>
  \<open>os.OpenFile\<close>: with \<open>O_CREATE\<close> a missing file is created, empty, with the given
  permission, provided its directory exists.
\<close>

definition os_OpenFile :: "string \<Rightarrow> flag set \<Rightarrow> nat \<Rightarrow> world \<Rightarrow> (error + osFile) \<times> world" where
  "os_OpenFile p fl perm w =
     (let c = OpenFile_call p fl perm; w1 = logged c w; f = \<lparr>fname = p, fflags = fl\<rparr>
      in case fault w c of
           Some e \<Rightarrow> (Inl (PathError ''open'' p e), w1)
         | None \<Rightarrow>
             (case lookup w p of
                Some (Dir m) \<Rightarrow> (Inl (PathError ''open'' p EISDIR), w1)
              | Some (File m content) \<Rightarrow> (Inr f, w1)
              | None \<Rightarrow>
                  if O_CREATE \<in> fl \<and> is_dir w (parent_of p)
                  then (Inr f, store p (File perm []) w1)
                  else (Inl (PathError ''open'' p ENOENT), w1)))"

text \<open>
  \<open>(*os.File).Write\<close>: one write of the whole slice; it returns the number of bytes
  written. With \<open>O_APPEND\<close> the bytes go to the end of the file; without it, at the
  start (the package writes once to a file it has opened).
\<close>

definition File_Write :: "osFile \<Rightarrow> string \<Rightarrow> world \<Rightarrow> (error + nat) \<times> world" where
  "File_Write f b w =
     (let c = Write_call (fname f) b; w1 = logged c w
      in case fault w c of
           Some e \<Rightarrow> (Inl (PathError ''write'' (fname f) e), w1)
         | None \<Rightarrow>
             (case lookup w (fname f) of
                Some (File m content) \<Rightarrow>
                  if O_WRONLY \<notin> fflags f then (Inl (PathError ''write'' (fname f) EBADF), w1)
                  else if O_APPEND \<in> fflags f
                  then (Inr (length b), store (fname f) (File m (content @ b)) w1)
                  else (Inr (length b), store (fname f) (File m (b @ drop (length b) content)) w1)
              | _ \<Rightarrow> (Inl (PathError ''write'' (fname f) EBADF), w1)))"

definition File_Close :: "osFile \<Rightarrow> world \<Rightarrow> error option \<times> world" where
  "File_Close f w =
     (let c = Close_call (fname f); w1 = logged c w
      in case fault w c of
           Some e \<Rightarrow> (Some (PathError ''close'' (fname f) e), w1)
         | None \<Rightarrow> (None, w1))"

text \<open>\<open>fmt.Fprintln(f, s)\<close>: the operand and a newline, in one write.\<close>

definition Fprintln :: "osFile \<Rightarrow> string \<Rightarrow> world \<Rightarrow> (error + nat) \<times> world" where
  "Fprintln f s w = File_Write f (s @ [CHR 0x0A]) w"

section \<open>Package tracefs\<close>

text \<open>The octal permission literals \<open>0777\<close> and \<open>0644\<close>.\<close>

definition mode_0777 :: nat where
  "mode_0777 = 7 * 64 + 7 * 8 + 7"

definition mode_0644 :: nat where
  "mode_0644 = 6 * 64 + 4 * 8 + 4"

record Instance =
  isRoot :: bool
  path :: string
  name :: string

definition rootPath :: string where
  "rootPath = ''/sys/kernel/tracing''"

definition RootInstance :: "string \<Rightarrow> Instance" where
  "RootInstance p = \<lparr>isRoot = True, path = p, name = ''*Default*''\<rparr>"

definition DefaultInstance :: Instance where
  "DefaultInstance = RootInstance rootPath"

definition Name :: "Instance \<Rightarrow> string" where
  "Name i = name i"

definition ChildInstances :: "Instance \<Rightarrow> world \<Rightarrow> (error + Instance list) \<times> world" where
  "ChildInstances i w =
     (if \<not> isRoot i then (Inl (Errorf ''Cannot get ChildInstances for non-root instance''), w)
      else
        let instanceDir = Join [path i, ''instances'']
        in case os_ReadDir instanceDir w of
             (Inl err, w1) \<Rightarrow> (Inl err, w1)
           | (Inr entries, w1) \<Rightarrow>
               (Inr (map (\<lambda>e. \<lparr>isRoot = False, path = Join [instanceDir, e], name = e\<rparr>) entries),
                w1))"

definition ListInstances :: "world \<Rightarrow> (error + Instance list) \<times> world" where
  "ListInstances w = ChildInstances DefaultInstance w"

definition readFile :: "Instance \<Rightarrow> string \<Rightarrow> world \<Rightarrow> (error + string) \<times> world" where
  "readFile i nm w =
     (case ioutil_ReadFile (Join [path i, nm]) w of
        (Inl err, w1) \<Rightarrow> (Inl err, w1)
      | (Inr data, w1) \<Rightarrow> (Inr (TrimSpace data), w1))"

definition writeFile :: "Instance \<Rightarrow> string \<Rightarrow> string \<Rightarrow> world \<Rightarrow> error option \<times> world" where
  "writeFile i nm b w = ioutil_WriteFile (Join [path i, nm]) b mode_0777 w"

definition curTracerPath :: string where
  "curTracerPath = ''current_tracer''"

definition tracingOnPath :: string where
  "tracingOnPath = ''tracing_on''"

definition CurrentTracer :: "Instance \<Rightarrow> world \<Rightarrow> (error + string) \<times> world" where
  "CurrentTracer i w =
     (case readFile i curTracerPath w of
        (Inl err, w1) \<Rightarrow> (Inl err, w1)
      | (Inr tracer, w1) \<Rightarrow> (Inr tracer, w1))"

definition SetTracer :: "Instance \<Rightarrow> string \<Rightarrow> world \<Rightarrow> error option \<times> world" where
  "SetTracer i t w = writeFile i curTracerPath t w"

definition On :: "Instance \<Rightarrow> world \<Rightarrow> (error + bool) \<times> world" where
  "On i w =
     (case readFile i tracingOnPath w of
        (Inl err, w1) \<Rightarrow> (Inl err, w1)
      | (Inr result, w1) \<Rightarrow>
          if result = ''0'' then (Inr False, w1)
          else if result = ''1'' then (Inr True, w1)
          else (Inl (Errorf (''unknown on value: '' @ result)), w1))"

definition Enable :: "Instance \<Rightarrow> world \<Rightarrow> error option \<times> world" where
  "Enable i w = writeFile i tracingOnPath ''1'' w"

definition Disable :: "Instance \<Rightarrow> world \<Rightarrow> error option \<times> world" where
  "Disable i w = writeFile i tracingOnPath ''0'' w"

definition NewInstance :: "Instance \<Rightarrow> string \<Rightarrow> world \<Rightarrow> (error + Instance) \<times> world" where
  "NewInstance i nm w =
     (if \<not> isRoot i then (Inl (Errorf ''must be called on a root instance''), w)
      else
        let childPath = Join [path i, ''instances'', nm]
        in case os_Mkdir childPath mode_0777 w of
             (Some err, w1) \<Rightarrow> (Inl err, w1)
           | (None, w1) \<Rightarrow> (Inr \<lparr>isRoot = False, path = childPath, name = nm\<rparr>, w1))"

definition Destroy :: "Instance \<Rightarrow> world \<Rightarrow> error option \<times> world" where
  "Destroy i w =
     (if isRoot i then (Some (Errorf ''cannot destroy the root tracer instance''), w)
      else os_Remove (path i) w)"

text \<open>
  \<open>AddUprobeEvent\<close>: the deferred \<open>f.Close()\<close> runs on every return after the file
  was opened, and its result is dropped.
\<close>

definition AddUprobeEvent :: "Instance \<Rightarrow> UprobeEvent \<Rightarrow> world \<Rightarrow> error option \<times> world" where
  "AddUprobeEvent i e w =
     (case os_OpenFile (Join [path i, ''uprobe_events'']) {O_APPEND, O_CREATE, O_WRONLY} mode_0644 w of
        (Inl err, w1) \<Rightarrow> (Some err, w1)
      | (Inr f, w1) \<Rightarrow>
          (case Fprintln f (Rule e) w1 of
             (Inl err, w2) \<Rightarrow> (Some err, snd (File_Close f w2))
           | (Inr n, w2) \<Rightarrow>
               (case File_Close f w2 of
                  (r, w3) \<Rightarrow> (r, snd (File_Close f w3)))))"

definition UprobeEnablePath :: "Instance \<Rightarrow> UprobeEvent \<Rightarrow> string" where
  "UprobeEnablePath i e =
     (if Group e \<noteq> [] \<and> Event e \<noteq> []
      then Join [path i, ''events'', Group e, Event e, ''enable'']
      else if Event e \<noteq> []
      then Join [path i, ''events'', ''uprobes'', Event e, ''enable'']
      else Join [path i, ''events'', ''uprobes'', ''enable''])"

definition EnableUprobe :: "Instance \<Rightarrow> UprobeEvent \<Rightarrow> world \<Rightarrow> error option \<times> world" where
  "EnableUprobe i e w = writeFile i (UprobeEnablePath i e) ''1'' w"

definition DisableUprobe :: "Instance \<Rightarrow> UprobeEvent \<Rightarrow> world \<Rightarrow> error option \<times> world" where
  "DisableUprobe i e w = writeFile i (UprobeEnablePath i e) ''0'' w"

section \<open>Notions used to state the properties\<close>

text \<open>
  The absolute path with the given elements: \<open>abs_path [''sys'', ''kernel'']\<close> is
  \<open>/sys/kernel\<close>.
\<close>

definition abs_path :: "string list \<Rightarrow> string" where
  "abs_path cs = concat (map (\<lambda>c. CHR ''/'' # c) cs)"

text \<open>A value with no white space around it: empty, or its first and last bytes are
  ASCII and not white space.\<close>

definition ascii_nonspace :: "char \<Rightarrow> bool" where
  "ascii_nonspace c = (of_char c < RuneSelf \<and> \<not> asciiSpace c)"

definition no_surrounding_space :: "string \<Rightarrow> bool" where
  "no_surrounding_space t = (t = [] \<or> ascii_nonspace (hd t) \<and> ascii_nonspace (last t))"

text \<open>
  A trace file system as the kernel presents it: the mount, one child instance
  \<open>foo\<close>, and control nodes whose content ends with a newline.
\<close>

definition tracefs_world :: world where
  "tracefs_world =
     \<lparr>nodes = [(''/sys/kernel/tracing'', Dir 493),
               (''/sys/kernel/tracing/instances'', Dir 493),
               (''/sys/kernel/tracing/instances/foo'', Dir 493),
               (''/sys/kernel/tracing/tracing_on'', File 420 ''1\<newline>''),
               (''/sys/kernel/tracing/current_tracer'', File 420 ''nop\<newline>'')],
      fault = (\<lambda>c. None),
      calls = []\<rparr>"

section \<open>Properties of the rule encoding\<close>

lemma length_fmtInteger_digits_le:
  "u < 16 ^ Suc n \<Longrightarrow> length (fmtInteger_digits u) \<le> Suc n"
proof (induction n arbitrary: u)
  case 0
  then show ?case by (subst fmtInteger_digits.simps) simp
next
  case (Suc n)
  show ?case
  proof (cases "16 \<le> u")
    case True
    from Suc.prems have "u div 16 < 16 ^ Suc n"
      by (simp add: less_mult_imp_div_less)
    then have "length (fmtInteger_digits (u div 16)) \<le> Suc n"
      by (rule Suc.IH)
    with True show ?thesis
      by (subst fmtInteger_digits.simps) simp
  next
    case False
    then show ?thesis by (subst fmtInteger_digits.simps) simp
  qed
qed

lemma ldigits_lower_hex: "n < 16 \<Longrightarrow> is_lower_hex (ldigits ! n)"
proof -
  assume "n < 16"
  then have "n \<in> {0, 1, 2, 3, 4, 5, 6, 7, 8, 9, 10, 11, 12, 13, 14, 15}"
    by simp arith
  then show ?thesis
    by (auto simp: ldigits_def is_lower_hex_def)
qed

lemma ldigits_val: "n < 16 \<Longrightarrow> hex_digit_val (ldigits ! n) = n"
proof -
  assume "n < 16"
  then have "n \<in> {0, 1, 2, 3, 4, 5, 6, 7, 8, 9, 10, 11, 12, 13, 14, 15}"
    by simp arith
  then show ?thesis
    by (auto simp: ldigits_def hex_digit_val_def)
qed

lemma fmtInteger_digits_hex: "list_all is_lower_hex (fmtInteger_digits u)"
proof (induction u rule: fmtInteger_digits.induct)
  case (1 u)
  show ?case
  proof (cases "16 \<le> u")
    case True
    with 1 show ?thesis
      by (subst fmtInteger_digits.simps) (simp add: ldigits_lower_hex)
  next
    case False
    then show ?thesis
      by (subst fmtInteger_digits.simps) (simp add: ldigits_lower_hex)
  qed
qed

lemma hex_val_append: "hex_val (xs @ [c]) = 16 * hex_val xs + hex_digit_val c"
  by (simp add: hex_val_def)

lemma hex_val_fmtInteger_digits: "hex_val (fmtInteger_digits u) = u"
proof (induction u rule: fmtInteger_digits.induct)
  case (1 u)
  show ?case
  proof (cases "16 \<le> u")
    case True
    with 1 have "hex_val (fmtInteger_digits (u div 16)) = u div 16" by simp
    with True show ?thesis
      by (subst fmtInteger_digits.simps) (simp add: hex_val_append ldigits_val)
  next
    case False
    then show ?thesis
      by (subst fmtInteger_digits.simps) (simp add: hex_val_def ldigits_val)
  qed
qed

lemma hex_val_zeros: "hex_val (replicate k (CHR ''0'') @ s) = hex_val s"
proof -
  have "foldl (\<lambda>a c. 16 * a + hex_digit_val c) 0 (replicate k (CHR ''0'')) = 0"
    by (induction k) (simp_all add: hex_digit_val_def)
  then show ?thesis by (simp add: hex_val_def)
qed

lemma length_fmt_016x: "length (fmt_016x w) = 16"
proof -
  have "unat w < 2 ^ 64" using unsigned_less [of w] by simp
  then have "unat w < 16 ^ Suc 15" by simp
  then have "length (fmtInteger_digits (unat w)) \<le> 16"
    using length_fmtInteger_digits_le [of "unat w" 15] by simp
  then show ?thesis by (simp add: fmt_016x_def Let_def)
qed

lemma fmt_016x_hex: "list_all is_lower_hex (fmt_016x w)"
proof -
  have "list_all is_lower_hex (replicate k (CHR ''0''))" for k
    by (induction k) (simp_all add: is_lower_hex_def)
  then show ?thesis
    by (simp add: fmt_016x_def Let_def fmtInteger_digits_hex)
qed

lemma hex_val_fmt_016x: "hex_val (fmt_016x w) = unat w"
  by (simp add: fmt_016x_def Let_def hex_val_zeros hex_val_fmtInteger_digits)

lemma foldl_append_args:
  "foldl (\<lambda>b arg. b @ CHR '' '' # String arg) b args
     = b @ concat (map (\<lambda>a. CHR '' '' # String a) args)"
  by (induction args arbitrary: b) simp_all

lemma Rule_eq:
  "Rule e = spec_type e # spec_naming e @ '' '' @ Path e @ '':0x'' @ fmt_016x (Offset e)
              @ concat (map (\<lambda>a. '' '' @ String a) (FetchArgs e))"
  by (cases "Group e = []"; cases "Event e = []")
     (simp_all add: Rule_def Let_def foldl_append_args spec_type_def spec_naming_def)

lemma replicate_numeral_unfold:
  "replicate (numeral k) x = x # replicate (pred_numeral k) x"
  by (simp add: numeral_eq_Suc)

lemma takeWhile_token:
  "c \<notin> set xs \<Longrightarrow> ys = [] \<or> hd ys = c \<Longrightarrow> takeWhile (\<lambda>x. x \<noteq> c) (xs @ ys) = xs"
  by (cases ys; induction xs) auto

lemma space_not_in_fmt_016x: "CHR '' '' \<notin> set (fmt_016x w)"
proof
  assume "CHR '' '' \<in> set (fmt_016x w)"
  with fmt_016x_hex [of w] have "is_lower_hex (CHR '' '')"
    by (simp add: list_all_iff)
  then show False by (simp add: is_lower_hex_def)
qed

lemma spec_naming_token:
  "CHR '' '' \<notin> set (Group e) \<Longrightarrow> CHR '' '' \<notin> set (Event e) \<Longrightarrow> CHR '' '' \<notin> set (spec_naming e)"
  by (simp add: spec_naming_def)

lemma spec_naming_colon: "spec_naming e = [] \<or> hd (spec_naming e) = CHR '':''"
  by (simp add: spec_naming_def)

lemma args_start:
  "concat (map (\<lambda>a. CHR '' '' # String a) args) = [] 
     \<or> hd (concat (map (\<lambda>a. CHR '' '' # String a) args)) = CHR '' ''"
  by (cases args) simp_all

section \<open>Properties of \<open>Join\<close> and \<open>Clean\<close>\<close>

lemma takeWhile_elem:
  "\<forall>x\<in>set c. \<not> IsPathSeparator x \<Longrightarrow> elem_ends rest \<Longrightarrow>
     takeWhile (\<lambda>x. \<not> IsPathSeparator x) (c @ rest) = c
     \<and> dropWhile (\<lambda>x. \<not> IsPathSeparator x) (c @ rest) = rest"
  by (induction c) (auto simp: elem_ends_def split: list.splits)

lemma Clean_loop_elem:
  assumes c: "entry_name c" and rest: "elem_ends rest"
  shows "Clean_loop True (c @ rest) out dotdot
           = Clean_loop True rest ((if length out \<noteq> 1 then out @ ''/'' else out) @ c) dotdot"
proof -
  from c obtain x xs where cx: "c = x # xs" by (cases c) (auto simp: entry_name_def)
  from c have nosep: "\<forall>y\<in>set c. \<not> IsPathSeparator y"
    by (auto simp: entry_name_def IsPathSeparator_def)
  with cx have x: "\<not> IsPathSeparator x" by simp
  have dot: "\<not> (x = CHR ''.'' \<and> elem_ends (xs @ rest))"
    using c cx by (cases xs) (auto simp: entry_name_def elem_ends_def IsPathSeparator_def)
  have dotdot: "\<not> (x = CHR ''.'' \<and> (case xs @ rest of [] \<Rightarrow> False
                    | d # ds \<Rightarrow> d = CHR ''.'' \<and> elem_ends ds))"
  proof (cases xs)
    case Nil
    with c cx show ?thesis by (auto simp: entry_name_def)
  next
    case (Cons d ds)
    with c cx show ?thesis
      by (cases ds) (auto simp: entry_name_def elem_ends_def IsPathSeparator_def)
  qed
  have "Clean_loop True (x # (xs @ rest)) out dotdot
          = Clean_loop True (dropWhile (\<lambda>x. \<not> IsPathSeparator x) (x # (xs @ rest)))
              ((if length out \<noteq> 1 then out @ ''/'' else out)
                 @ takeWhile (\<lambda>x. \<not> IsPathSeparator x) (x # (xs @ rest))) dotdot"
    by (subst Clean_loop.simps) (simp only: x dot dotdot if_False, simp)
  also have "x # (xs @ rest) = c @ rest" by (simp add: cx)
  finally show ?thesis
    using takeWhile_elem [OF nosep rest] by simp
qed

lemma Clean_loop_abs_path:
  "list_all entry_name cs \<Longrightarrow> 1 < length out \<Longrightarrow>
     Clean_loop True (abs_path cs) out dotdot = out @ abs_path cs"
proof (induction cs arbitrary: out)
  case Nil
  then show ?case by (simp add: abs_path_def Clean_loop.simps)
next
  case (Cons c cs)
  have e: "elem_ends (abs_path cs)"
    by (cases cs) (simp_all add: abs_path_def elem_ends_def IsPathSeparator_def)
  have "Clean_loop True (abs_path (c # cs)) out dotdot
          = Clean_loop True (c @ abs_path cs) out dotdot"
    by (simp add: abs_path_def Clean_loop.simps IsPathSeparator_def)
  also have "\<dots> = Clean_loop True (abs_path cs) ((out @ ''/'') @ c) dotdot"
    using Cons.prems Clean_loop_elem [of c "abs_path cs" out dotdot] e by simp
  also have "\<dots> = ((out @ ''/'') @ c) @ abs_path cs"
    using Cons.prems by (intro Cons.IH) (simp_all add: entry_name_def)
  finally show ?case by (simp add: abs_path_def)
qed

lemma Clean_abs_path:
  assumes "cs \<noteq> []" "list_all entry_name cs"
  shows "Clean (abs_path cs) = abs_path cs"
proof -
  from assms obtain c cs' where cs: "cs = c # cs'" by (cases cs) auto
  have e: "elem_ends (abs_path cs')"
    by (cases cs') (simp_all add: abs_path_def elem_ends_def IsPathSeparator_def)
  from assms cs have c: "entry_name c" and cs': "list_all entry_name cs'" by simp_all
  then have ne: "c \<noteq> []" by (simp add: entry_name_def)
  have "Clean_loop True (c @ abs_path cs') ''/'' 1 = Clean_loop True (abs_path cs') (''/'' @ c) 1"
    using Clean_loop_elem [OF c e, of "''/''" 1] by simp
  also have "\<dots> = (''/'' @ c) @ abs_path cs'"
    using cs' ne by (intro Clean_loop_abs_path) (simp_all add: Suc_lessI)
  finally show ?thesis
    by (simp add: Clean_def cs abs_path_def IsPathSeparator_def)
qed

lemma strings_Join_sep: "strings_Join (x # es) ''/'' = x @ abs_path es"
  by (induction es arbitrary: x) (simp_all add: abs_path_def)

lemma Join_abs_path:
  assumes "ps \<noteq> []" "list_all entry_name ps" "list_all entry_name es"
  shows "Join (abs_path ps # es) = abs_path ps @ abs_path es"
proof -
  from assms(1,2) have "abs_path ps \<noteq> []"
    by (cases ps) (simp_all add: abs_path_def)
  then have "Join (abs_path ps # es) = Clean (abs_path (ps @ es))"
    by (simp add: strings_Join_sep abs_path_def)
  also have "\<dots> = abs_path (ps @ es)"
    using assms by (intro Clean_abs_path) simp_all
  finally show ?thesis by (simp add: abs_path_def)
qed

lemma Join_nonempty: "p \<noteq> [] \<Longrightarrow> Join (p # es) = Clean (p @ abs_path es)"
  by (simp add: strings_Join_sep)

section \<open>Properties of \<open>TrimSpace\<close>\<close>

lemma asciiSpace_ascii: "asciiSpace c \<Longrightarrow> of_char c < RuneSelf"
  by (auto simp: asciiSpace_def RuneSelf_def)

lemma scan_ascii_spaces: "list_all asciiSpace ws \<Longrightarrow> scan_ascii (ws @ r) = scan_ascii r"
  by (induction ws) (auto dest: asciiSpace_ascii)

lemma scan_ascii_stop: "ascii_nonspace c \<Longrightarrow> scan_ascii (c # r) = Inr (c # r)"
  by (simp add: ascii_nonspace_def)

lemma TrimSpace_surrounded:
  assumes ws1: "list_all asciiSpace ws1" and ws2: "list_all asciiSpace ws2"
    and t: "no_surrounding_space t"
  shows "TrimSpace (ws1 @ t @ ws2) = t"
proof (cases "t = []")
  case True
  have "scan_ascii (ws1 @ ws2 @ []) = Inr []"
    using ws1 ws2 by (simp only: scan_ascii_spaces scan_ascii.simps)
  with True show ?thesis by (simp add: TrimSpace_def)
next
  case False
  then obtain c r where tc: "t = c # r" by (cases t) auto
  from False obtain r' c' where tl: "t = r' @ [c']" by (cases t rule: rev_cases) auto
  from t False tc have c: "ascii_nonspace c"
    by (simp add: no_surrounding_space_def)
  from t False have "ascii_nonspace (last t)"
    by (simp add: no_surrounding_space_def)
  then have c': "ascii_nonspace c'"
    by (simp add: tl)
  have 1: "scan_ascii (ws1 @ t @ ws2) = Inr (t @ ws2)"
    using ws1 c by (simp add: scan_ascii_spaces tc scan_ascii_stop del: scan_ascii.simps)
  have "list_all asciiSpace (rev ws2)" using ws2 by simp
  then have "scan_ascii (rev ws2 @ c' # rev r') = Inr (c' # rev r')"
    using c' by (simp add: scan_ascii_spaces scan_ascii_stop del: scan_ascii.simps)
  then have 2: "scan_ascii (rev ws2 @ rev t) = Inr (rev t)"
    by (simp add: tl)
  show ?thesis by (simp add: TrimSpace_def 1 2)
qed

section \<open>Properties of the file system model\<close>

lemma fault_logged [simp]: "fault (logged c w) = fault w"
  by (simp add: logged_def)

lemma fault_store [simp]: "fault (store p n w) = fault w"
  by (simp add: store_def)

lemma lookup_logged [simp]: "lookup (logged c w) p = lookup w p"
  by (simp add: logged_def lookup_def)

lemma map_of_filter_other:
  "q \<noteq> p \<Longrightarrow> map_of (filter (\<lambda>kv. fst kv \<noteq> p) xs) q = map_of xs q"
  by (induction xs) auto

lemma lookup_store [simp]: "lookup (store p n w) q = (if q = p then Some n else lookup w q)"
  by (simp add: store_def lookup_def map_of_filter_other)

lemma calls_logged [simp]: "calls (logged c w) = calls w @ [c]"
  by (simp add: logged_def)

lemma calls_store [simp]: "calls (store p n w) = calls w"
  by (simp add: store_def)

lemma calls_ioutil_WriteFile:
  "calls (snd (ioutil_WriteFile p b perm w)) = calls w @ [WriteFile_call p b perm]"
  by (simp add: ioutil_WriteFile_def Let_def split: option.split node.split)

lemma entries_of_entry_name: "list_all entry_name (entries_of w p)"
  by (simp add: entries_of_def list_all_iff)

lemma os_ReadDir_entries:
  "os_ReadDir p w = (Inr es, w1) \<Longrightarrow> set es = set (entries_of w p) \<and> list_all entry_name es"
  using entries_of_entry_name [of w p]
  by (auto simp: os_ReadDir_def Let_def list_all_iff split: option.splits node.splits)

lemma Join_instance_child:
  assumes "ps \<noteq> []" "list_all entry_name ps" "entry_name n"
  shows "Join [abs_path ps, ''instances'', n] = abs_path ps @ ''/instances/'' @ n"
    and "Join [Join [abs_path ps, ''instances''], n] = abs_path ps @ ''/instances/'' @ n"
proof -
  have i: "entry_name ''instances''" by (simp add: entry_name_def)
  show "Join [abs_path ps, ''instances'', n] = abs_path ps @ ''/instances/'' @ n"
    using Join_abs_path [OF assms(1,2), of "[''instances'', n]"] assms(3) i
    by (simp add: abs_path_def)
  have "Join [abs_path ps, ''instances''] = abs_path (ps @ [''instances''])"
    using Join_abs_path [OF assms(1,2), of "[''instances'']"] i by (simp add: abs_path_def)
  moreover have "Join [abs_path (ps @ [''instances'']), n] = abs_path (ps @ [''instances'']) @ abs_path [n]"
    using assms i by (intro Join_abs_path) simp_all
  ultimately show "Join [Join [abs_path ps, ''instances''], n] = abs_path ps @ ''/instances/'' @ n"
    by (simp add: abs_path_def)
qed

section \<open>Evaluation on concrete paths and worlds\<close>

lemmas eval_path = Clean_def Clean_loop.simps IsPathSeparator_def elem_ends_def backtrack.simps

lemmas eval_instance = DefaultInstance_def RootInstance_def rootPath_def tracingOnPath_def
  curTracerPath_def mode_0777_def mode_0644_def

lemmas eval_world = tracefs_world_def lookup_def logged_def store_def unlink_def is_dir_def
  parent_of_def base_of_def entry_name_def entries_of_def

lemma default_path: "path DefaultInstance = abs_path [''sys'', ''kernel'', ''tracing'']"
  by (simp add: eval_instance abs_path_def)

lemma tracing_on_path: "Join [path DefaultInstance, tracingOnPath] = ''/sys/kernel/tracing/tracing_on''"
  by (simp add: eval_instance eval_path)

section \<open>The claims about the rule encoding\<close>

text \<open>
  C1. For every UprobeEvent, \<open>Rule\<close> yields the line
  \<open><type>[:naming] <Path>:0x<offset>\<close> followed by the fetch arguments. The type
  character is \<open>r\<close> when \<open>ReturnProbe\<close> is set and \<open>p\<close> otherwise. The offset is
  the \<open>Offset\<close> field as exactly 16 lowercase hexadecimal digits, zero-padded on the
  left (the digits denote the value of the field). The encoding of every fetch argument
  follows, each after one space and in the order given; with no fetch argument the line
  ends with the offset.
\<close>

theorem Rule_line_form:
  "Rule e = (if ReturnProbe e then CHR ''r'' else CHR ''p'') # spec_naming e @ '' '' @ Path e
              @ '':0x'' @ fmt_016x (Offset e)
              @ concat (map (\<lambda>a. '' '' @ String a) (FetchArgs e))
   \<and> length (fmt_016x (Offset e)) = 16
   \<and> list_all is_lower_hex (fmt_016x (Offset e))
   \<and> hex_val (fmt_016x (Offset e)) = unat (Offset e)
   \<and> (FetchArgs e = [] \<longrightarrow>
        Rule e = (if ReturnProbe e then CHR ''r'' else CHR ''p'') # spec_naming e @ '' '' @ Path e
                   @ '':0x'' @ fmt_016x (Offset e))"
  using Rule_eq [of e]
  by (simp add: length_fmt_016x fmt_016x_hex hex_val_fmt_016x spec_type_def)

theorem Rule_line_form_witness:
  "FetchArgs \<lparr>ReturnProbe = True, Group = [], Event = [], Path = ''/bin/true'',
              Offset = 256, FetchArgs = []\<rparr> = []
   \<and> Rule \<lparr>ReturnProbe = True, Group = [], Event = [], Path = ''/bin/true'',
            Offset = 256, FetchArgs = []\<rparr> = ''r /bin/true:0x0000000000000100''
   \<and> Rule \<lparr>ReturnProbe = False, Group = ''g'', Event = ''e'', Path = ''/bin/ls'',
            Offset = 4096, FetchArgs = [\<lparr>Type = ''u64'', String = ''%ax''\<rparr>,
                                        \<lparr>Type = ''u64'', String = ''%bx''\<rparr>]\<rparr>
       = ''p:g/e /bin/ls:0x0000000000001000 %ax %bx''"
  using Rule_line_form [of "\<lparr>ReturnProbe = True, Group = [], Event = [], Path = ''/bin/true'',
              Offset = 256, FetchArgs = []\<rparr>"]
        Rule_line_form [of "\<lparr>ReturnProbe = False, Group = ''g'', Event = ''e'', Path = ''/bin/ls'',
            Offset = 4096, FetchArgs = [\<lparr>Type = ''u64'', String = ''%ax''\<rparr>,
                                        \<lparr>Type = ''u64'', String = ''%bx''\<rparr>]\<rparr>"]
  by (simp add: spec_naming_def fmt_016x_def fmtInteger_digits.simps ldigits_def
        replicate_numeral_unfold)

text \<open>
  C2. The naming clause of \<open>Rule\<close> is emitted only when \<open>Event\<close> is non-empty: with
  both \<open>Group\<close> and \<open>Event\<close> non-empty the type character is followed by
  \<open>:<Group>/<Event>\<close>; with only \<open>Event\<close> non-empty by \<open>:<Event>\<close>; with \<open>Event\<close>
  empty the space before the path follows the type character at once, whatever
  \<open>Group\<close> is.
\<close>

theorem Rule_naming_clause:
  "(Group e \<noteq> [] \<and> Event e \<noteq> [] \<longrightarrow>
      Rule e = spec_type e # '':'' @ Group e @ ''/'' @ Event e @ '' '' @ Path e @ '':0x''
                 @ fmt_016x (Offset e) @ concat (map (\<lambda>a. '' '' @ String a) (FetchArgs e)))
   \<and> (Group e = [] \<and> Event e \<noteq> [] \<longrightarrow>
      Rule e = spec_type e # '':'' @ Event e @ '' '' @ Path e @ '':0x''
                 @ fmt_016x (Offset e) @ concat (map (\<lambda>a. '' '' @ String a) (FetchArgs e)))
   \<and> (Event e = [] \<longrightarrow>
      Rule e = spec_type e # '' '' @ Path e @ '':0x''
                 @ fmt_016x (Offset e) @ concat (map (\<lambda>a. '' '' @ String a) (FetchArgs e)))"
  using Rule_eq [of e] by (simp add: spec_naming_def)

theorem Rule_naming_clause_witness:
  "Rule \<lparr>ReturnProbe = False, Group = ''g'', Event = ''e'', Path = ''/bin/ls'',
          Offset = 0, FetchArgs = []\<rparr> = ''p:g/e /bin/ls:0x0000000000000000''
   \<and> Rule \<lparr>ReturnProbe = False, Group = [], Event = ''e'', Path = ''/bin/ls'',
          Offset = 0, FetchArgs = []\<rparr> = ''p:e /bin/ls:0x0000000000000000''
   \<and> Rule \<lparr>ReturnProbe = False, Group = ''g'', Event = [], Path = ''/bin/ls'',
          Offset = 0, FetchArgs = []\<rparr> = ''p /bin/ls:0x0000000000000000''"
  using Rule_naming_clause [of "\<lparr>ReturnProbe = False, Group = ''g'', Event = ''e'',
          Path = ''/bin/ls'', Offset = 0, FetchArgs = []\<rparr>"]
        Rule_naming_clause [of "\<lparr>ReturnProbe = False, Group = [], Event = ''e'',
          Path = ''/bin/ls'', Offset = 0, FetchArgs = []\<rparr>"]
        Rule_naming_clause [of "\<lparr>ReturnProbe = False, Group = ''g'', Event = [],
          Path = ''/bin/ls'', Offset = 0, FetchArgs = []\<rparr>"]
  by (simp add: spec_type_def fmt_016x_def fmtInteger_digits.simps ldigits_def
        replicate_numeral_unfold)

text \<open>
  C4. For every valid combination of \<open>ReturnProbe\<close>, \<open>Group\<close>, \<open>Event\<close>,
  \<open>Path\<close> and \<open>Offset\<close> (whatever the fetch arguments are), reading the line that
  \<open>Rule\<close> produces against the grammar gives back the type character, the naming
  clause, the path and the 16 hexadecimal digits of the offset, and these digits denote
  the offset.
\<close>

theorem Rule_parse_roundtrip:
  assumes "valid_event e"
  shows "parse_rule (Rule e) = Some (spec_type e, spec_naming e, Path e, fmt_016x (Offset e))
         \<and> hex_val (fmt_016x (Offset e)) = unat (Offset e)"
proof -
  let ?args = "concat (map (\<lambda>a. CHR '' '' # String a) (FetchArgs e))"
  let ?hex = "fmt_016x (Offset e)"
  let ?tok = "Path e @ '':0x'' @ ?hex"
  let ?rest = "spec_naming e @ CHR '' '' # ?tok @ ?args"
  from assms have sp: "CHR '' '' \<notin> set (spec_naming e)" and pa: "CHR '' '' \<notin> set (Path e)"
    by (simp_all add: valid_event_def spec_naming_token)
  have line: "Rule e = spec_type e # ?rest"
    using Rule_eq [of e] by simp
  have ty: "\<not> (spec_type e \<noteq> CHR ''p'' \<and> spec_type e \<noteq> CHR ''r'')"
    by (simp add: spec_type_def)
  have "takeWhile (\<lambda>c. c \<noteq> CHR '' '') (spec_naming e @ (CHR '' '' # ?tok @ ?args)) = spec_naming e"
    using sp by (intro takeWhile_token) simp_all
  then have tw: "takeWhile (\<lambda>c. c \<noteq> CHR '' '') ?rest = spec_naming e"
    by simp
  have naming: "(if ?rest \<noteq> [] \<and> hd ?rest = CHR '':''
                 then takeWhile (\<lambda>c. c \<noteq> CHR '' '') ?rest else []) = spec_naming e"
  proof (cases "spec_naming e = []")
    case True
    then show ?thesis by simp
  next
    case False
    with spec_naming_colon [of e] have "hd ?rest = CHR '':''" by simp
    with tw show ?thesis by simp
  qed
  have rest1: "drop (length (spec_naming e)) ?rest = CHR '' '' # ?tok @ ?args"
    by simp
  have "CHR '' '' \<notin> set ?tok"
    using pa space_not_in_fmt_016x [of "Offset e"] by simp
  then have tok: "takeWhile (\<lambda>c. c \<noteq> CHR '' '') (?tok @ ?args) = ?tok"
    using args_start [of "FetchArgs e"] by (intro takeWhile_token) simp_all
  have len: "length ?tok = length (Path e) + 19"
    by (simp add: length_fmt_016x)
  have parts: "take (length ?tok - 19) ?tok = Path e"
      "drop (length ?tok - 19) ?tok = '':0x'' @ ?hex"
    by (simp_all add: length_fmt_016x)
  have "parse_rule (spec_type e # ?rest) = Some (spec_type e, spec_naming e, Path e, ?hex)"
    unfolding parse_rule_def list.case Let_def naming rest1 tok parts
    using ty len by (simp add: fmt_016x_hex)
  with line show ?thesis
    by (simp add: hex_val_fmt_016x)
qed

theorem Rule_parse_roundtrip_witness:
  "valid_event \<lparr>ReturnProbe = True, Group = ''grp'', Event = ''ev'', Path = ''/bin/true'',
                 Offset = 256, FetchArgs = [\<lparr>Type = ''u64'', String = ''%ax''\<rparr>]\<rparr>
   \<and> parse_rule ''r:grp/ev /bin/true:0x0000000000000100 %ax''
       = Some (CHR ''r'', '':grp/ev'', ''/bin/true'', ''0000000000000100'')
   \<and> hex_val ''0000000000000100'' = 256"
proof -
  let ?e = "\<lparr>ReturnProbe = True, Group = ''grp'', Event = ''ev'', Path = ''/bin/true'',
              Offset = 256, FetchArgs = [\<lparr>Type = ''u64'', String = ''%ax''\<rparr>]\<rparr>"
  have v: "valid_event ?e" by (simp add: valid_event_def)
  have r: "Rule ?e = ''r:grp/ev /bin/true:0x0000000000000100 %ax''"
    by (simp add: Rule_def fmt_016x_def fmtInteger_digits.simps ldigits_def
          replicate_numeral_unfold)
  have h: "fmt_016x (256 :: 64 word) = ''0000000000000100''"
    by (simp add: fmt_016x_def fmtInteger_digits.simps ldigits_def replicate_numeral_unfold)
  show ?thesis
    using v Rule_parse_roundtrip [OF v] unfolding r
    by (simp add: h spec_type_def spec_naming_def)
qed

section \<open>The claims about instances, control nodes and probes\<close>

text \<open>
  C3, as stated. The enable path is said to be the instance path followed by
  \<open>/events/<Group>/<Event>/enable\<close>, and \<open>EnableUprobe\<close> to write to exactly that
  path. On the default instance with group \<open>..\<close> and event \<open>e\<close> the path that
  \<open>UprobeEnablePath\<close> returns is \<open>/sys/kernel/tracing/e/enable\<close>, since \<open>Join\<close>
  cleans its result; and \<open>EnableUprobe\<close> writes to yet another path, since
  \<open>writeFile\<close> joins the instance path in front of the path it is given.
\<close>

theorem UprobeEnablePath_counterexample:
  "UprobeEnablePath DefaultInstance
     \<lparr>ReturnProbe = False, Group = ''..'', Event = ''e'', Path = ''/bin/ls'', Offset = 0,
      FetchArgs = []\<rparr> = ''/sys/kernel/tracing/e/enable''
   \<and> ''/sys/kernel/tracing/e/enable''
        \<noteq> path DefaultInstance @ ''/events/'' @ ''..'' @ ''/'' @ ''e'' @ ''/enable''
   \<and> calls (snd (EnableUprobe DefaultInstance
        \<lparr>ReturnProbe = False, Group = ''..'', Event = ''e'', Path = ''/bin/ls'', Offset = 0,
         FetchArgs = []\<rparr> tracefs_world))
       = [WriteFile_call ''/sys/kernel/tracing/sys/kernel/tracing/e/enable'' ''1'' mode_0777]"
  by (simp add: UprobeEnablePath_def EnableUprobe_def writeFile_def ioutil_WriteFile_def Let_def
        eval_instance eval_path eval_world)

text \<open>
  C3, amended. For every instance with a non-empty path and every UprobeEvent,
  \<open>UprobeEnablePath\<close> returns the cleaned form (\<open>filepath.Clean\<close>) of
  \<open><instance path>/events/<Group>/<Event>/enable\<close> when both \<open>Group\<close> and
  \<open>Event\<close> are non-empty, of \<open><instance path>/events/uprobes/<Event>/enable\<close> when
  only \<open>Event\<close> is non-empty, and of \<open><instance path>/events/uprobes/enable\<close> when
  \<open>Event\<close> is empty, whatever \<open>Group\<close> is. When the instance path is an absolute
  path of plain elements and group and event are plain names, this is the string itself.
\<close>

theorem UprobeEnablePath_cleaned:
  "(path i \<noteq> [] \<and> Group e \<noteq> [] \<and> Event e \<noteq> [] \<longrightarrow>
      UprobeEnablePath i e = Clean (path i @ ''/events/'' @ Group e @ ''/'' @ Event e @ ''/enable''))
   \<and> (path i \<noteq> [] \<and> Group e = [] \<and> Event e \<noteq> [] \<longrightarrow>
      UprobeEnablePath i e = Clean (path i @ ''/events/uprobes/'' @ Event e @ ''/enable''))
   \<and> (path i \<noteq> [] \<and> Event e = [] \<longrightarrow>
      UprobeEnablePath i e = Clean (path i @ ''/events/uprobes/enable''))
   \<and> (path i = abs_path ps \<and> ps \<noteq> [] \<and> list_all entry_name ps \<longrightarrow>
        (entry_name (Group e) \<and> entry_name (Event e) \<longrightarrow>
           UprobeEnablePath i e = path i @ ''/events/'' @ Group e @ ''/'' @ Event e @ ''/enable'')
      \<and> (Group e = [] \<and> entry_name (Event e) \<longrightarrow>
           UprobeEnablePath i e = path i @ ''/events/uprobes/'' @ Event e @ ''/enable'')
      \<and> (Event e = [] \<longrightarrow>
           UprobeEnablePath i e = path i @ ''/events/uprobes/enable''))"
proof -
  have gen: "path i \<noteq> [] \<Longrightarrow> Join (path i # es) = Clean (path i @ abs_path es)" for es
    by (rule Join_nonempty)
  have lit: "Join (abs_path ps # es) = abs_path ps @ abs_path es"
    if "ps \<noteq> []" "list_all entry_name ps" "list_all entry_name es" for es
    using that by (rule Join_abs_path)
  have fixed: "entry_name ''events''" "entry_name ''uprobes''" "entry_name ''enable''"
    by (simp_all add: entry_name_def)
  show ?thesis
    using gen [of "[''events'', Group e, Event e, ''enable'']"]
      gen [of "[''events'', ''uprobes'', Event e, ''enable'']"]
      gen [of "[''events'', ''uprobes'', ''enable'']"]
      lit [of "[''events'', Group e, Event e, ''enable'']"]
      lit [of "[''events'', ''uprobes'', Event e, ''enable'']"]
      lit [of "[''events'', ''uprobes'', ''enable'']"] fixed
    by (auto simp: UprobeEnablePath_def abs_path_def entry_name_def)
qed

theorem UprobeEnablePath_cleaned_witness:
  "UprobeEnablePath DefaultInstance
     \<lparr>ReturnProbe = False, Group = ''g'', Event = ''e'', Path = ''/bin/ls'', Offset = 0,
      FetchArgs = []\<rparr> = ''/sys/kernel/tracing/events/g/e/enable''
   \<and> UprobeEnablePath DefaultInstance
     \<lparr>ReturnProbe = False, Group = [], Event = ''e'', Path = ''/bin/ls'', Offset = 0,
      FetchArgs = []\<rparr> = ''/sys/kernel/tracing/events/uprobes/e/enable''
   \<and> UprobeEnablePath DefaultInstance
     \<lparr>ReturnProbe = False, Group = ''g'', Event = [], Path = ''/bin/ls'', Offset = 0,
      FetchArgs = []\<rparr> = ''/sys/kernel/tracing/events/uprobes/enable''
   \<and> UprobeEnablePath (RootInstance ''/sys/kernel/tracing/'')
     \<lparr>ReturnProbe = False, Group = ''g'', Event = [], Path = ''/bin/ls'', Offset = 0,
      FetchArgs = []\<rparr> = Clean ''/sys/kernel/tracing//events/uprobes/enable''"
proof -
  let ?ps = "[''sys'', ''kernel'', ''tracing'']"
  have p: "path DefaultInstance = abs_path ?ps \<and> ?ps \<noteq> [] \<and> list_all entry_name ?ps"
    by (simp add: default_path entry_name_def)
  have l: "path DefaultInstance = ''/sys/kernel/tracing''"
    by (simp add: eval_instance)
  have n: "entry_name ''g''" "entry_name ''e''"
    by (simp_all add: entry_name_def)
  from UprobeEnablePath_cleaned [of DefaultInstance
          "\<lparr>ReturnProbe = False, Group = ''g'', Event = ''e'', Path = ''/bin/ls'', Offset = 0,
            FetchArgs = []\<rparr>" ?ps, THEN conjunct2, THEN conjunct2, THEN conjunct2, THEN mp, OF p]
  have 1: "UprobeEnablePath DefaultInstance
     \<lparr>ReturnProbe = False, Group = ''g'', Event = ''e'', Path = ''/bin/ls'', Offset = 0,
      FetchArgs = []\<rparr> = ''/sys/kernel/tracing/events/g/e/enable''"
    using n by (simp add: l)
  from UprobeEnablePath_cleaned [of DefaultInstance
          "\<lparr>ReturnProbe = False, Group = [], Event = ''e'', Path = ''/bin/ls'', Offset = 0,
            FetchArgs = []\<rparr>" ?ps, THEN conjunct2, THEN conjunct2, THEN conjunct2, THEN mp, OF p]
  have 2: "UprobeEnablePath DefaultInstance
     \<lparr>ReturnProbe = False, Group = [], Event = ''e'', Path = ''/bin/ls'', Offset = 0,
      FetchArgs = []\<rparr> = ''/sys/kernel/tracing/events/uprobes/e/enable''"
    using n by (simp add: l)
  from UprobeEnablePath_cleaned [of DefaultInstance
          "\<lparr>ReturnProbe = False, Group = ''g'', Event = [], Path = ''/bin/ls'', Offset = 0,
            FetchArgs = []\<rparr>" ?ps, THEN conjunct2, THEN conjunct2, THEN conjunct2, THEN mp, OF p]
  have 3: "UprobeEnablePath DefaultInstance
     \<lparr>ReturnProbe = False, Group = ''g'', Event = [], Path = ''/bin/ls'', Offset = 0,
      FetchArgs = []\<rparr> = ''/sys/kernel/tracing/events/uprobes/enable''"
    by (simp add: l)
  from UprobeEnablePath_cleaned [of "RootInstance ''/sys/kernel/tracing/''"
          "\<lparr>ReturnProbe = False, Group = ''g'', Event = [], Path = ''/bin/ls'', Offset = 0,
            FetchArgs = []\<rparr>" "[]", THEN conjunct2, THEN conjunct2, THEN conjunct1]
  have 4: "UprobeEnablePath (RootInstance ''/sys/kernel/tracing/'')
     \<lparr>ReturnProbe = False, Group = ''g'', Event = [], Path = ''/bin/ls'', Offset = 0,
      FetchArgs = []\<rparr> = Clean ''/sys/kernel/tracing//events/uprobes/enable''"
    by (simp add: RootInstance_def)
  from 1 2 3 4 show ?thesis by blast
qed

text \<open>
  The path that \<open>EnableUprobe\<close> and \<open>DisableUprobe\<close> hand to \<open>ioutil.WriteFile\<close>, for
  every instance, event and state of the file system: the instance path joined with the
  enable path, which already starts with the instance path.
\<close>

lemma EnableUprobe_call:
  "calls (snd (EnableUprobe i e w))
     = calls w @ [WriteFile_call (Join [path i, UprobeEnablePath i e]) ''1'' mode_0777]"
  "calls (snd (DisableUprobe i e w))
     = calls w @ [WriteFile_call (Join [path i, UprobeEnablePath i e]) ''0'' mode_0777]"
  by (simp_all add: EnableUprobe_def DisableUprobe_def writeFile_def calls_ioutil_WriteFile
        del: Join.simps)

text \<open>
  C5, as stated. \<open>On\<close> is said to fail for every content other than \<open>0\<close> and
  \<open>1\<close>. The node of a live trace file system holds \<open>1\<close> and a newline; this
  content is neither \<open>0\<close> nor \<open>1\<close>, and \<open>On\<close> returns true.
\<close>

theorem On_counterexample:
  "lookup tracefs_world (Join [path DefaultInstance, tracingOnPath]) = Some (File 420 ''1\<newline>'')
   \<and> ''1\<newline>'' \<noteq> ''1'' \<and> ''1\<newline>'' \<noteq> ''0''
   \<and> fst (On DefaultInstance tracefs_world) = Inr True"
  by (simp add: On_def readFile_def ioutil_ReadFile_def eval_instance eval_world eval_path
        TrimSpace_def asciiSpace_def RuneSelf_def)

text \<open>
  C5, amended. When the \<open>tracing_on\<close> node cannot be read, \<open>On\<close> returns the
  error of the read. Otherwise it returns true when the content of the node, with the
  white space around it trimmed, is \<open>1\<close>, false when that is \<open>0\<close>, and fails with
  an unknown-value error for every other trimmed content; the contents \<open>1\<close>, \<open>0\<close>,
  \<open>2\<close> and the empty one are their own trimmed forms.
\<close>

theorem On_trimmed_content:
  "(ioutil_ReadFile (Join [path i, tracingOnPath]) w = (Inl err, w1) \<longrightarrow> On i w = (Inl err, w1))
   \<and> (ioutil_ReadFile (Join [path i, tracingOnPath]) w = (Inr content, w1) \<longrightarrow>
        On i w = (if TrimSpace content = ''1'' then Inr True
                  else if TrimSpace content = ''0'' then Inr False
                  else Inl (Errorf (''unknown on value: '' @ TrimSpace content)), w1))
   \<and> TrimSpace ''1'' = ''1'' \<and> TrimSpace ''0'' = ''0'' \<and> TrimSpace ''2'' = ''2''
   \<and> TrimSpace [] = []"
  by (auto simp: On_def readFile_def TrimSpace_def asciiSpace_def RuneSelf_def)

theorem On_trimmed_content_witness:
  "fst (On DefaultInstance (tracefs_world\<lparr>fault := (\<lambda>c. Some EACCES)\<rparr>))
     = Inl (PathError ''open'' ''/sys/kernel/tracing/tracing_on'' EACCES)
   \<and> fst (On DefaultInstance tracefs_world) = Inr True
   \<and> fst (On DefaultInstance
            (store ''/sys/kernel/tracing/tracing_on'' (File 420 ''2'') tracefs_world))
       = Inl (Errorf ''unknown on value: 2'')"
proof -
  let ?p = "Join [path DefaultInstance, tracingOnPath]"
  let ?wf = "tracefs_world\<lparr>fault := (\<lambda>c. Some EACCES)\<rparr>"
  let ?w2 = "store ''/sys/kernel/tracing/tracing_on'' (File 420 ''2'') tracefs_world"
  have a: "ioutil_ReadFile ?p ?wf
             = (Inl (PathError ''open'' ''/sys/kernel/tracing/tracing_on'' EACCES),
                logged (ReadFile_call ?p) ?wf)"
    unfolding tracing_on_path by (simp add: ioutil_ReadFile_def Let_def)
  have b: "ioutil_ReadFile ?p tracefs_world
             = (Inr ''1\<newline>'', logged (ReadFile_call ?p) tracefs_world)"
    unfolding tracing_on_path by (simp add: ioutil_ReadFile_def Let_def tracefs_world_def lookup_def)
  have c: "ioutil_ReadFile ?p ?w2 = (Inr ''2'', logged (ReadFile_call ?p) ?w2)"
    unfolding tracing_on_path by (simp add: ioutil_ReadFile_def Let_def tracefs_world_def)
  have t: "TrimSpace ''1\<newline>'' = ''1''"
    by (simp add: TrimSpace_def asciiSpace_def RuneSelf_def)
  show ?thesis
    using On_trimmed_content [where i = DefaultInstance and w = ?wf
            and err = "PathError ''open'' ''/sys/kernel/tracing/tracing_on'' EACCES"
            and ?w1.0 = "logged (ReadFile_call ?p) ?wf"]
          On_trimmed_content [where i = DefaultInstance and w = tracefs_world
            and content = "''1\<newline>''" and ?w1.0 = "logged (ReadFile_call ?p) tracefs_world"]
          On_trimmed_content [where i = DefaultInstance and w = ?w2
            and content = "''2''" and ?w1.0 = "logged (ReadFile_call ?p) ?w2"]
    unfolding a b c t by simp
qed

text \<open>
  C6. Structural misuse is rejected before any access to the file system: on a non-root
  instance \<open>ChildInstances\<close> and \<open>NewInstance\<close> fail with their messages, on a root
  instance \<open>Destroy\<close> fails with its message, and the state of the file system that
  comes back is the one that went in: no node changed and no call was made.
\<close>

theorem structural_misuse:
  "(\<not> isRoot i \<longrightarrow>
      ChildInstances i w = (Inl (Errorf ''Cannot get ChildInstances for non-root instance''), w)
      \<and> NewInstance i nm w = (Inl (Errorf ''must be called on a root instance''), w))
   \<and> (isRoot i \<longrightarrow> Destroy i w = (Some (Errorf ''cannot destroy the root tracer instance''), w))"
  by (simp add: ChildInstances_def NewInstance_def Destroy_def)

theorem structural_misuse_witness:
  "\<not> isRoot \<lparr>isRoot = False, path = ''/sys/kernel/tracing/instances/foo'', name = ''foo''\<rparr>
   \<and> ChildInstances \<lparr>isRoot = False, path = ''/sys/kernel/tracing/instances/foo'', name = ''foo''\<rparr>
        tracefs_world
       = (Inl (Errorf ''Cannot get ChildInstances for non-root instance''), tracefs_world)
   \<and> NewInstance \<lparr>isRoot = False, path = ''/sys/kernel/tracing/instances/foo'', name = ''foo''\<rparr>
        ''bar'' tracefs_world
       = (Inl (Errorf ''must be called on a root instance''), tracefs_world)
   \<and> isRoot DefaultInstance
   \<and> Destroy DefaultInstance tracefs_world
       = (Some (Errorf ''cannot destroy the root tracer instance''), tracefs_world)
   \<and> calls (snd (Destroy DefaultInstance tracefs_world)) = []"
  using structural_misuse [of "\<lparr>isRoot = False, path = ''/sys/kernel/tracing/instances/foo'',
                                name = ''foo''\<rparr>" tracefs_world "''bar''"]
        structural_misuse [of DefaultInstance tracefs_world "''bar''"]
  by (simp add: DefaultInstance_def RootInstance_def tracefs_world_def)

text \<open>
  C7, as stated. The path of the new instance is said to be
  \<open><root path>/instances/<name>\<close> for every name. For the name \<open>a/../b\<close> the
  directory made and the path returned are \<open>/sys/kernel/tracing/instances/b\<close>.
\<close>

theorem NewInstance_counterexample:
  "isRoot DefaultInstance
   \<and> NewInstance DefaultInstance ''a/../b'' tracefs_world
       = (Inr \<lparr>isRoot = False, path = ''/sys/kernel/tracing/instances/b'', name = ''a/../b''\<rparr>,
          store ''/sys/kernel/tracing/instances/b'' (Dir mode_0777)
            (logged (Mkdir_call ''/sys/kernel/tracing/instances/b'' mode_0777) tracefs_world))
   \<and> ''/sys/kernel/tracing/instances/b''
        \<noteq> path DefaultInstance @ ''/instances/'' @ ''a/../b''"
  by (simp add: NewInstance_def os_Mkdir_def Let_def eval_instance eval_path
        tracefs_world_def lookup_def is_dir_def parent_of_def)

text \<open>
  C7, amended. For every name, \<open>NewInstance\<close> on a root instance, when the directory
  creation succeeds, returns a non-root instance whose name is the given name and whose
  path is \<open>filepath.Join(<root path>, "instances", <name>)\<close>: for a non-empty root
  path the cleaned form of \<open><root path>/instances/<name>\<close>, and that string itself
  when the root path is an absolute path of plain elements and the name is a plain name.
\<close>

theorem NewInstance_on_root:
  "(isRoot i \<and> fst (os_Mkdir (Join [path i, ''instances'', nm]) mode_0777 w) = None \<longrightarrow>
      NewInstance i nm w
        = (Inr \<lparr>isRoot = False, path = Join [path i, ''instances'', nm], name = nm\<rparr>,
           snd (os_Mkdir (Join [path i, ''instances'', nm]) mode_0777 w)))
   \<and> (path i \<noteq> [] \<longrightarrow> Join [path i, ''instances'', nm] = Clean (path i @ ''/instances/'' @ nm))
   \<and> (path i = abs_path ps \<and> ps \<noteq> [] \<and> list_all entry_name ps \<and> entry_name nm \<longrightarrow>
        Join [path i, ''instances'', nm] = path i @ ''/instances/'' @ nm)"
  using Join_instance_child(1) [of ps nm]
  by (auto simp: NewInstance_def Let_def split: prod.splits option.splits)

theorem NewInstance_on_root_witness:
  "isRoot DefaultInstance
   \<and> fst (os_Mkdir ''/sys/kernel/tracing/instances/probe1'' mode_0777 tracefs_world) = None
   \<and> fst (NewInstance DefaultInstance ''probe1'' tracefs_world)
       = Inr \<lparr>isRoot = False, path = ''/sys/kernel/tracing/instances/probe1'', name = ''probe1''\<rparr>
   \<and> Join [path DefaultInstance, ''instances'', ''a/../b'']
       = Clean ''/sys/kernel/tracing/instances/a/../b''"
proof -
  have r: "isRoot DefaultInstance" by (simp add: eval_instance)
  have p: "path DefaultInstance = abs_path [''sys'', ''kernel'', ''tracing'']
           \<and> [''sys'', ''kernel'', ''tracing''] \<noteq> []
           \<and> list_all entry_name [''sys'', ''kernel'', ''tracing''] \<and> entry_name ''probe1''"
    by (simp add: default_path entry_name_def)
  have m: "fst (os_Mkdir ''/sys/kernel/tracing/instances/probe1'' mode_0777 tracefs_world) = None"
    by (simp add: os_Mkdir_def Let_def tracefs_world_def lookup_def is_dir_def parent_of_def)
  have l: "path DefaultInstance @ ''/instances/'' @ ''probe1''
             = ''/sys/kernel/tracing/instances/probe1''"
    by (simp add: eval_instance)
  from NewInstance_on_root [of DefaultInstance "''probe1''" tracefs_world
         "[''sys'', ''kernel'', ''tracing'']"] p
  have j: "Join [path DefaultInstance, ''instances'', ''probe1'']
             = ''/sys/kernel/tracing/instances/probe1''"
    unfolding l by blast
  have ne: "path DefaultInstance \<noteq> []" by (simp add: eval_instance)
  from NewInstance_on_root [of DefaultInstance "''a/../b''" tracefs_world "[]",
         THEN conjunct2, THEN conjunct1, THEN mp, OF ne]
  have c: "Join [path DefaultInstance, ''instances'', ''a/../b'']
             = Clean ''/sys/kernel/tracing/instances/a/../b''"
    by (simp add: eval_instance)
  from NewInstance_on_root [of DefaultInstance "''probe1''" tracefs_world
         "[''sys'', ''kernel'', ''tracing'']", THEN conjunct1] r m
  have "fst (NewInstance DefaultInstance ''probe1'' tracefs_world)
       = Inr \<lparr>isRoot = False, path = ''/sys/kernel/tracing/instances/probe1'', name = ''probe1''\<rparr>"
    unfolding j by simp
  with r m c show ?thesis by blast
qed

text \<open>
  C8, as stated. Every instance that \<open>ChildInstances\<close> or \<open>NewInstance\<close> produces
  is said to have the path \<open><root path>/instances/<name>\<close>. For the root path
  \<open>/sys/kernel/tracing/\<close>, written with a slash at its end, the child \<open>foo\<close> that
  \<open>ChildInstances\<close> lists has the path \<open>/sys/kernel/tracing/instances/foo\<close>; and
  for the name \<open>../probe\<close> the instance that \<open>NewInstance\<close> makes on the default
  root has the path \<open>/sys/kernel/tracing/probe\<close>, outside \<open>instances\<close>.
\<close>

theorem produced_instances_counterexample:
  "fst (ChildInstances (RootInstance ''/sys/kernel/tracing/'') tracefs_world)
       = Inr [\<lparr>isRoot = False, path = ''/sys/kernel/tracing/instances/foo'', name = ''foo''\<rparr>]
   \<and> ''/sys/kernel/tracing/instances/foo''
        \<noteq> path (RootInstance ''/sys/kernel/tracing/'') @ ''/instances/'' @ ''foo''
   \<and> fst (NewInstance DefaultInstance ''../probe'' tracefs_world)
       = Inr \<lparr>isRoot = False, path = ''/sys/kernel/tracing/probe'', name = ''../probe''\<rparr>
   \<and> ''/sys/kernel/tracing/probe'' \<noteq> path DefaultInstance @ ''/instances/'' @ ''../probe''"
  by (simp add: ChildInstances_def os_ReadDir_def NewInstance_def os_Mkdir_def Let_def
        eval_instance eval_path eval_world)

text \<open>
  C8, amended. Every instance that \<open>ChildInstances\<close> or \<open>NewInstance\<close> produces is
  not a root; its name is the directory entry (the names are those the directory
  listing returned) or the given name; its path is the \<open>filepath.Join\<close> of the root
  path, \<open>instances\<close> and the name, which is \<open><root path>/instances/<name>\<close> itself
  when the root path is an absolute path of plain elements (and the given name a plain
  name). Hence \<open>ChildInstances\<close> and \<open>NewInstance\<close> on it fail the structural
  check in every state, and \<open>Destroy\<close> on it passes the check and goes on to remove
  its path.
\<close>

theorem produced_instances_not_root:
  "(fst (ChildInstances i w) = Inr xs \<longrightarrow>
      fst (os_ReadDir (Join [path i, ''instances'']) w) = Inr (map name xs))
   \<and> (fst (ChildInstances i w) = Inr xs \<and> x \<in> set xs \<longrightarrow>
        \<not> isRoot x \<and> entry_name (name x)
        \<and> path x = Join [Join [path i, ''instances''], name x]
        \<and> (path i = abs_path ps \<and> ps \<noteq> [] \<and> list_all entry_name ps \<longrightarrow>
             path x = path i @ ''/instances/'' @ name x)
        \<and> ChildInstances x w' = (Inl (Errorf ''Cannot get ChildInstances for non-root instance''), w')
        \<and> NewInstance x n w' = (Inl (Errorf ''must be called on a root instance''), w')
        \<and> Destroy x w' = os_Remove (path x) w')
   \<and> (fst (NewInstance i nm w) = Inr x \<longrightarrow>
        \<not> isRoot x \<and> name x = nm
        \<and> path x = Join [path i, ''instances'', nm]
        \<and> (path i = abs_path ps \<and> ps \<noteq> [] \<and> list_all entry_name ps \<and> entry_name nm \<longrightarrow>
             path x = path i @ ''/instances/'' @ nm)
        \<and> ChildInstances x w' = (Inl (Errorf ''Cannot get ChildInstances for non-root instance''), w')
        \<and> NewInstance x n w' = (Inl (Errorf ''must be called on a root instance''), w')
        \<and> Destroy x w' = os_Remove (path x) w')"
proof (intro conjI impI)
  assume "fst (ChildInstances i w) = Inr xs"
  then show "fst (os_ReadDir (Join [path i, ''instances'']) w) = Inr (map name xs)"
    by (auto simp: ChildInstances_def Let_def comp_def split: if_splits prod.splits sum.splits)
next
  assume a: "fst (ChildInstances i w) = Inr xs \<and> x \<in> set xs"
  then obtain es w1 where rd: "os_ReadDir (Join [path i, ''instances'']) w = (Inr es, w1)"
    and xs: "xs = map (\<lambda>e. \<lparr>isRoot = False, path = Join [Join [path i, ''instances''], e],
                               name = e\<rparr>) es"
    by (auto simp: ChildInstances_def Let_def split: if_splits prod.splits sum.splits)
  from a xs obtain en where en: "en \<in> set es"
    and x: "x = \<lparr>isRoot = False, path = Join [Join [path i, ''instances''], en], name = en\<rparr>"
    by auto
  from os_ReadDir_entries [OF rd] en have ename: "entry_name en"
    by (simp add: list_all_iff)
  show "\<not> isRoot x" by (simp add: x)
  show "entry_name (name x)" using ename by (simp add: x)
  show "path x = Join [Join [path i, ''instances''], name x]" by (simp add: x)
  show "path x = path i @ ''/instances/'' @ name x"
    if "path i = abs_path ps \<and> ps \<noteq> [] \<and> list_all entry_name ps"
    using that Join_instance_child(2) [of ps en] ename by (simp add: x)
  show "ChildInstances x w' = (Inl (Errorf ''Cannot get ChildInstances for non-root instance''), w')"
    by (simp add: x ChildInstances_def)
  show "NewInstance x n w' = (Inl (Errorf ''must be called on a root instance''), w')"
    by (simp add: x NewInstance_def)
  show "Destroy x w' = os_Remove (path x) w'"
    by (simp add: x Destroy_def)
next
  assume "fst (NewInstance i nm w) = Inr x"
  then have x: "x = \<lparr>isRoot = False, path = Join [path i, ''instances'', nm], name = nm\<rparr>"
    by (auto simp: NewInstance_def Let_def split: if_splits prod.splits option.splits)
  show "\<not> isRoot x" by (simp add: x)
  show "name x = nm" by (simp add: x)
  show "path x = Join [path i, ''instances'', nm]" by (simp add: x)
  show "path x = path i @ ''/instances/'' @ nm"
    if "path i = abs_path ps \<and> ps \<noteq> [] \<and> list_all entry_name ps \<and> entry_name nm"
    using that Join_instance_child(1) [of ps nm] by (simp add: x)
  show "ChildInstances x w' = (Inl (Errorf ''Cannot get ChildInstances for non-root instance''), w')"
    by (simp add: x ChildInstances_def)
  show "NewInstance x n w' = (Inl (Errorf ''must be called on a root instance''), w')"
    by (simp add: x NewInstance_def)
  show "Destroy x w' = os_Remove (path x) w'"
    by (simp add: x Destroy_def)
qed

theorem produced_instances_not_root_witness:
  "fst (ChildInstances DefaultInstance tracefs_world)
     = Inr [\<lparr>isRoot = False, path = ''/sys/kernel/tracing/instances/foo'', name = ''foo''\<rparr>]
   \<and> fst (NewInstance DefaultInstance ''probe1'' tracefs_world)
     = Inr \<lparr>isRoot = False, path = ''/sys/kernel/tracing/instances/probe1'', name = ''probe1''\<rparr>
   \<and> ChildInstances \<lparr>isRoot = False, path = ''/sys/kernel/tracing/instances/foo'', name = ''foo''\<rparr>
        tracefs_world
       = (Inl (Errorf ''Cannot get ChildInstances for non-root instance''), tracefs_world)
   \<and> NewInstance \<lparr>isRoot = False, path = ''/sys/kernel/tracing/instances/probe1'',
                   name = ''probe1''\<rparr> ''x'' tracefs_world
       = (Inl (Errorf ''must be called on a root instance''), tracefs_world)
   \<and> Destroy \<lparr>isRoot = False, path = ''/sys/kernel/tracing/instances/foo'', name = ''foo''\<rparr>
        tracefs_world
       = os_Remove ''/sys/kernel/tracing/instances/foo'' tracefs_world
   \<and> path \<lparr>isRoot = False, path = ''/sys/kernel/tracing/instances/foo'', name = ''foo''\<rparr>
       = path DefaultInstance @ ''/instances/'' @ ''foo''
   \<and> fst (os_ReadDir (Join [path DefaultInstance, ''instances'']) tracefs_world) = Inr [''foo'']"
proof -
  let ?foo = "\<lparr>isRoot = False, path = ''/sys/kernel/tracing/instances/foo'', name = ''foo''\<rparr>"
  let ?probe = "\<lparr>isRoot = False, path = ''/sys/kernel/tracing/instances/probe1'',
                  name = ''probe1''\<rparr>"
  have c: "fst (ChildInstances DefaultInstance tracefs_world) = Inr [?foo]"
    by (simp add: ChildInstances_def os_ReadDir_def Let_def eval_instance eval_path eval_world)
  have n: "fst (NewInstance DefaultInstance ''probe1'' tracefs_world) = Inr ?probe"
    by (simp add: NewInstance_def os_Mkdir_def Let_def eval_instance eval_path
          tracefs_world_def lookup_def is_dir_def parent_of_def)
  have hc: "fst (ChildInstances DefaultInstance tracefs_world) = Inr [?foo] \<and> ?foo \<in> set [?foo]"
    using c by simp
  from produced_instances_not_root [of DefaultInstance tracefs_world "[?foo]" ?foo
         "[''sys'', ''kernel'', ''tracing'']" tracefs_world "''x''" "''probe1''",
         THEN conjunct2, THEN conjunct1, THEN mp, OF hc]
  have "ChildInstances ?foo tracefs_world
             = (Inl (Errorf ''Cannot get ChildInstances for non-root instance''), tracefs_world)
           \<and> Destroy ?foo tracefs_world = os_Remove (path ?foo) tracefs_world"
    by blast
  then have 1: "ChildInstances ?foo tracefs_world
             = (Inl (Errorf ''Cannot get ChildInstances for non-root instance''), tracefs_world)
           \<and> Destroy ?foo tracefs_world = os_Remove ''/sys/kernel/tracing/instances/foo'' tracefs_world"
    by simp
  from produced_instances_not_root [of DefaultInstance tracefs_world "[?foo]" ?probe
         "[''sys'', ''kernel'', ''tracing'']" tracefs_world "''x''" "''probe1''",
         THEN conjunct2, THEN conjunct2, THEN mp, OF n]
  have 2: "NewInstance ?probe ''x'' tracefs_world
             = (Inl (Errorf ''must be called on a root instance''), tracefs_world)"
    by blast
  have p: "path DefaultInstance = abs_path [''sys'', ''kernel'', ''tracing'']
           \<and> [''sys'', ''kernel'', ''tracing''] \<noteq> []
           \<and> list_all entry_name [''sys'', ''kernel'', ''tracing'']"
    by (simp add: default_path entry_name_def)
  from produced_instances_not_root [of DefaultInstance tracefs_world "[?foo]" ?foo
         "[''sys'', ''kernel'', ''tracing'']" tracefs_world "''x''" "''probe1''",
         THEN conjunct2, THEN conjunct1, THEN mp, OF hc] p
  have "path ?foo = path DefaultInstance @ ''/instances/'' @ name ?foo"
    by blast
  then have 3: "path ?foo = path DefaultInstance @ ''/instances/'' @ ''foo''"
    by simp
  from produced_instances_not_root [of DefaultInstance tracefs_world "[?foo]" ?foo
         "[''sys'', ''kernel'', ''tracing'']" tracefs_world "''x''" "''probe1''",
         THEN conjunct1, THEN mp, OF c]
  have 4: "fst (os_ReadDir (Join [path DefaultInstance, ''instances'']) tracefs_world)
             = Inr [''foo'']"
    by simp
  from c n 1 2 3 4 show ?thesis by blast
qed

text \<open>
  C9. \<open>AddUprobeEvent\<close> opens the \<open>uprobe_events\<close> node of the instance with
  \<open>O_CREATE\<close> besides \<open>O_APPEND\<close> and \<open>O_WRONLY\<close>, and permission \<open>0644\<close>.
  When the node does not exist (its directory does, and the file system refuses none of
  the calls), the operation does not fail: the node is created with permission
  \<open>0644\<close> and holds the rule line and a newline afterwards.
\<close>

theorem AddUprobeEvent_creates_node:
  assumes "lookup w (Join [path i, ''uprobe_events'']) = None"
    and "is_dir w (parent_of (Join [path i, ''uprobe_events'']))"
    and "fault w (OpenFile_call (Join [path i, ''uprobe_events''])
                    {O_APPEND, O_CREATE, O_WRONLY} mode_0644) = None"
    and "fault w (Write_call (Join [path i, ''uprobe_events'']) (Rule e @ ''\<newline>'')) = None"
    and "fault w (Close_call (Join [path i, ''uprobe_events''])) = None"
  shows "fst (AddUprobeEvent i e w) = None
       \<and> lookup (snd (AddUprobeEvent i e w)) (Join [path i, ''uprobe_events''])
           = Some (File mode_0644 (Rule e @ ''\<newline>''))
       \<and> calls (snd (AddUprobeEvent i e w))
           = calls w @ [OpenFile_call (Join [path i, ''uprobe_events''])
                          {O_APPEND, O_CREATE, O_WRONLY} mode_0644,
                        Write_call (Join [path i, ''uprobe_events'']) (Rule e @ ''\<newline>''),
                        Close_call (Join [path i, ''uprobe_events'']),
                        Close_call (Join [path i, ''uprobe_events''])]"
proof -
  let ?p = "Join [path i, ''uprobe_events'']"
  let ?f = "\<lparr>fname = ?p, fflags = {O_APPEND, O_CREATE, O_WRONLY}\<rparr>"
  let ?w1 = "store ?p (File mode_0644 [])
               (logged (OpenFile_call ?p {O_APPEND, O_CREATE, O_WRONLY} mode_0644) w)"
  let ?w2 = "store ?p (File mode_0644 (Rule e @ ''\<newline>''))
               (logged (Write_call ?p (Rule e @ ''\<newline>'')) ?w1)"
  have "is_dir w (parent_of (Join [path i, ''uprobe_events'']))" by fact
  have op: "os_OpenFile ?p {O_APPEND, O_CREATE, O_WRONLY} mode_0644 w = (Inr ?f, ?w1)"
    using assms(1,2,3) by (simp add: os_OpenFile_def Let_def)
  have wr: "Fprintln ?f (Rule e) ?w1 = (Inr (length (Rule e @ ''\<newline>'')), ?w2)"
    using assms(4) by (simp add: Fprintln_def File_Write_def Let_def)
  have cl: "File_Close ?f ?w2 = (None, logged (Close_call ?p) ?w2)"
    using assms(5) by (simp add: File_Close_def Let_def)
  have cl2: "snd (File_Close ?f (logged (Close_call ?p) ?w2))
               = logged (Close_call ?p) (logged (Close_call ?p) ?w2)"
    using assms(5) by (simp add: File_Close_def Let_def)
  have "AddUprobeEvent i e w = (None, logged (Close_call ?p) (logged (Close_call ?p) ?w2))"
    unfolding AddUprobeEvent_def op wr cl cl2 prod.case sum.case by simp
  then show ?thesis by simp
qed

theorem AddUprobeEvent_creates_node_witness:
  "lookup tracefs_world ''/sys/kernel/tracing/uprobe_events'' = None
   \<and> is_dir tracefs_world (parent_of ''/sys/kernel/tracing/uprobe_events'')
   \<and> fst (AddUprobeEvent DefaultInstance
            \<lparr>ReturnProbe = True, Group = [], Event = [], Path = ''/bin/true'', Offset = 256,
             FetchArgs = []\<rparr> tracefs_world) = None
   \<and> lookup (snd (AddUprobeEvent DefaultInstance
            \<lparr>ReturnProbe = True, Group = [], Event = [], Path = ''/bin/true'', Offset = 256,
             FetchArgs = []\<rparr> tracefs_world)) ''/sys/kernel/tracing/uprobe_events''
       = Some (File mode_0644 ''r /bin/true:0x0000000000000100\<newline>'')"
proof -
  let ?e = "\<lparr>ReturnProbe = True, Group = [], Event = [], Path = ''/bin/true'', Offset = 256,
             FetchArgs = []\<rparr>"
  have p: "Join [path DefaultInstance, ''uprobe_events''] = ''/sys/kernel/tracing/uprobe_events''"
    by (simp add: eval_instance eval_path)
  have r: "Rule ?e = ''r /bin/true:0x0000000000000100''"
    by (simp add: Rule_def fmt_016x_def fmtInteger_digits.simps ldigits_def
          replicate_numeral_unfold)
  have a: "lookup tracefs_world ''/sys/kernel/tracing/uprobe_events'' = None"
    by (simp add: tracefs_world_def lookup_def)
  have b: "is_dir tracefs_world (parent_of ''/sys/kernel/tracing/uprobe_events'')"
    by (simp add: tracefs_world_def lookup_def is_dir_def parent_of_def)
  have f: "fault tracefs_world c = None" for c
    by (simp add: tracefs_world_def)
  from AddUprobeEvent_creates_node [of tracefs_world DefaultInstance ?e, unfolded p, OF a b f f f]
  show ?thesis using a b unfolding r by simp
qed

text \<open>
  C10. Reads of control nodes trim the ASCII white space around the content before it is
  interpreted: when the \<open>tracing_on\<close> node holds \<open>1\<close> or \<open>0\<close> with ASCII white
  space before and after it, \<open>On\<close> returns true or false and no error; when the
  \<open>current_tracer\<close> node holds a tracer name with ASCII white space before and after
  it, \<open>CurrentTracer\<close> returns the name alone.
\<close>

theorem reads_trim_space:
  assumes "list_all asciiSpace ws1" and "list_all asciiSpace ws2"
  shows "(ioutil_ReadFile (Join [path i, tracingOnPath]) w = (Inr (ws1 @ ''1'' @ ws2), w1) \<longrightarrow>
            On i w = (Inr True, w1))
       \<and> (ioutil_ReadFile (Join [path i, tracingOnPath]) w = (Inr (ws1 @ ''0'' @ ws2), w1) \<longrightarrow>
            On i w = (Inr False, w1))
       \<and> (no_surrounding_space t
            \<and> ioutil_ReadFile (Join [path i, curTracerPath]) w = (Inr (ws1 @ t @ ws2), w1) \<longrightarrow>
            CurrentTracer i w = (Inr t, w1))"
proof -
  have one: "TrimSpace (ws1 @ ''1'' @ ws2) = ''1''" and zero: "TrimSpace (ws1 @ ''0'' @ ws2) = ''0''"
    using assms
    by (intro TrimSpace_surrounded;
        simp add: no_surrounding_space_def ascii_nonspace_def asciiSpace_def RuneSelf_def)+
  have t: "no_surrounding_space t \<Longrightarrow> TrimSpace (ws1 @ t @ ws2) = t"
    using assms by (intro TrimSpace_surrounded)
  show ?thesis
    using one zero t by (auto simp: On_def CurrentTracer_def readFile_def)
qed

theorem reads_trim_space_witness:
  "list_all asciiSpace [] \<and> list_all asciiSpace ''\<newline>''
   \<and> no_surrounding_space ''nop''
   \<and> On DefaultInstance tracefs_world
       = (Inr True, logged (ReadFile_call ''/sys/kernel/tracing/tracing_on'') tracefs_world)
   \<and> CurrentTracer DefaultInstance tracefs_world
       = (Inr ''nop'', logged (ReadFile_call ''/sys/kernel/tracing/current_tracer'') tracefs_world)
   \<and> fst (On DefaultInstance
            (store ''/sys/kernel/tracing/tracing_on'' (File 420 ''0\<newline>'') tracefs_world))
       = Inr False"
proof -
  let ?w0 = "store ''/sys/kernel/tracing/tracing_on'' (File 420 ''0\<newline>'') tracefs_world"
  have ws: "list_all asciiSpace []" "list_all asciiSpace ''\<newline>''"
    by (simp_all add: asciiSpace_def)
  have nop: "no_surrounding_space ''nop''"
    by (simp add: no_surrounding_space_def ascii_nonspace_def asciiSpace_def RuneSelf_def)
  have p: "Join [path DefaultInstance, tracingOnPath] = ''/sys/kernel/tracing/tracing_on''"
      "Join [path DefaultInstance, curTracerPath] = ''/sys/kernel/tracing/current_tracer''"
    by (simp_all add: eval_instance eval_path)
  have a: "ioutil_ReadFile ''/sys/kernel/tracing/tracing_on'' tracefs_world
             = (Inr ([] @ ''1'' @ ''\<newline>''),
                logged (ReadFile_call ''/sys/kernel/tracing/tracing_on'') tracefs_world)"
    by (simp add: ioutil_ReadFile_def Let_def tracefs_world_def lookup_def)
  have b: "ioutil_ReadFile ''/sys/kernel/tracing/current_tracer'' tracefs_world
             = (Inr ([] @ ''nop'' @ ''\<newline>''),
                logged (ReadFile_call ''/sys/kernel/tracing/current_tracer'') tracefs_world)"
    by (simp add: ioutil_ReadFile_def Let_def tracefs_world_def lookup_def)
  have c: "ioutil_ReadFile ''/sys/kernel/tracing/tracing_on'' ?w0
             = (Inr ([] @ ''0'' @ ''\<newline>''),
                logged (ReadFile_call ''/sys/kernel/tracing/tracing_on'') ?w0)"
    by (simp add: ioutil_ReadFile_def Let_def tracefs_world_def)
  from reads_trim_space [OF ws, where i = DefaultInstance and w = ?w0 and t = "''nop''"
         and ?w1.0 = "logged (ReadFile_call ''/sys/kernel/tracing/tracing_on'') ?w0"] c
  have z: "fst (On DefaultInstance ?w0) = Inr False"
    unfolding p by simp
  from reads_trim_space [OF ws, where i = DefaultInstance and w = tracefs_world
         and t = "''nop''"
         and ?w1.0 = "logged (ReadFile_call ''/sys/kernel/tracing/tracing_on'') tracefs_world"]
       reads_trim_space [OF ws, where i = DefaultInstance and w = tracefs_world
         and t = "''nop''"
         and ?w1.0 = "logged (ReadFile_call ''/sys/kernel/tracing/current_tracer'') tracefs_world"]
       ws nop a b
  have "list_all asciiSpace [] \<and> list_all asciiSpace ''\<newline>''
   \<and> no_surrounding_space ''nop''
   \<and> On DefaultInstance tracefs_world
       = (Inr True, logged (ReadFile_call ''/sys/kernel/tracing/tracing_on'') tracefs_world)
   \<and> CurrentTracer DefaultInstance tracefs_world
       = (Inr ''nop'', logged (ReadFile_call ''/sys/kernel/tracing/current_tracer'') tracefs_world)"
    unfolding p by simp
  with z show ?thesis by blast
qed

end
